theory Spec2Isabelle
  imports Complex_Main "HOL-Library.Multiset" "HOL-Library.Signed_Division"
begin

section \<open>Data model of the cross-validator (cv.hpp)\<close>

text \<open>
  The development follows the fold-parallel cross-validator, \<^verbatim>\<open>cv.cpp\<close> and \<^verbatim>\<open>cv.hpp\<close>.
  A C++ \<^verbatim>\<open>int\<close> is a HOL \<open>int\<close>. Every index and counter computed by the fold
  construction and by the loops lies between 0 and the row count or the fold count, so
  none of that arithmetic can overflow. The one sum that can leave the range of a 32-bit
  \<^verbatim>\<open>int\<close> is \<^verbatim>\<open>random_seed_ + fold\<close>; it is modelled by \<open>int_add\<close>, with the
  wrap-around written out. A C++
  \<^verbatim>\<open>double\<close> is idealised as a HOL \<open>real\<close>: rounding is not modelled, the order of the
  operations is the one of the source. A failed \<^verbatim>\<open>assert\<close>, a division by zero and a row
  index out of range are values of the type \<open>error\<close>; a function that can fail returns
  \<open>error + 'a\<close>.
\<close>

datatype error = AssertionFailed | DivisionByZero | RowIndexOutOfRange

text \<open>
  Modelled from the spec: the class \<^verbatim>\<open>DataFrame\<close> (datasets.cpp) is not among the sources.
  It is the spec's Tabular Data Container, "an ordered sequence of rows"; the rows stay
  abstract. \<^verbatim>\<open>DataFrame()\<close> is the empty sequence, \<^verbatim>\<open>addRow\<close> appends a row at the end,
  \<^verbatim>\<open>length()\<close> counts the rows and \<^verbatim>\<open>row(i)\<close> reads row \<open>i\<close>, which is an error
  outside \<open>0 \<le> i < length()\<close>.
\<close>

type_synonym 'r DataFrame = "'r list"

definition length_df :: "'r DataFrame \<Rightarrow> int" where
  "length_df df = int (length df)"

definition row :: "'r DataFrame \<Rightarrow> int \<Rightarrow> error + 'r" where
  "row df i = (if 0 \<le> i \<and> i < length_df df then Inr (df ! nat i) else Inl RowIndexOutOfRange)"

definition addRow :: "'r DataFrame \<Rightarrow> 'r \<Rightarrow> 'r DataFrame" where
  "addRow df r = df @ [r]"

text \<open>The struct \<^verbatim>\<open>CVResult\<close> with its six fields, in the order of the constructor.\<close>

record CVResult =
  dataset :: string
  max_depth :: int
  cv_time_ms :: real
  mean_cv_accuracy :: real
  std_cv_accuracy :: real
  fold_scores :: "real list"

text \<open>
  The struct \<^verbatim>\<open>HyperparameterSet\<close>. Its constructor has a default for every argument:
  \<^verbatim>\<open>HyperparameterSet(int depth = 5, int min_obs_val = 1, std::string loss_func = "gini_impurity")\<close>.
\<close>

record HyperparameterSet =
  max_depth :: int
  min_obs :: int
  loss :: string

definition HyperparameterSet_default :: HyperparameterSet where
  "HyperparameterSet_default =
     \<lparr>HyperparameterSet.max_depth = 5, min_obs = 1, loss = ''gini_impurity''\<rparr>"

definition HyperparameterSet_depth :: "int \<Rightarrow> HyperparameterSet" where
  "HyperparameterSet_depth depth =
     \<lparr>HyperparameterSet.max_depth = depth, min_obs = 1, loss = ''gini_impurity''\<rparr>"

text \<open>
  The nine arguments of one call of the \<^verbatim>\<open>DecisionTree\<close> constructor, named as the
  comments at the call in \<^verbatim>\<open>validateSingleHyperparameter\<close> name them.
\<close>

record 'r DecisionTree_call =
  tree_data :: "'r DataFrame"
  tree_regression :: bool
  tree_loss :: string
  tree_mtry :: int
  tree_max_height :: int
  tree_max_leaves :: int
  tree_min_obs :: int
  tree_max_prop :: real
  tree_seed :: int

text \<open>
  The collaborators of the cross-validator that are not among the sources are parameters
  of the model: \<^verbatim>\<open>DataFrame::sample(n, seed, replace)\<close> and \<^verbatim>\<open>DataFrame::col(i)\<close>
  (datasets.cpp), the constructor and \<^verbatim>\<open>predict\<close> of \<^verbatim>\<open>DecisionTree\<close>
  (decision\_tree.cpp) and \<^verbatim>\<open>accuracy\<close> (metrics.cpp). Each is a function of its
  arguments only. \<open>'r\<close> is the type of a row, \<open>'v\<close> of a \<^verbatim>\<open>DataVector\<close>, \<open>'t\<close> of a
  trained tree.
\<close>

record ('r, 'v, 't) externals =
  sample :: "'r DataFrame \<Rightarrow> int \<Rightarrow> int \<Rightarrow> bool \<Rightarrow> 'r DataFrame"
  col :: "'r DataFrame \<Rightarrow> int \<Rightarrow> 'v"
  DecisionTree :: "'r DecisionTree_call \<Rightarrow> 't"
  predict :: "'t \<Rightarrow> 'r DataFrame \<Rightarrow> 'v"
  accuracy :: "'v \<Rightarrow> 'v \<Rightarrow> real"

text \<open>
  The private members \<^verbatim>\<open>data_\<close>, \<^verbatim>\<open>k_folds_\<close>, \<^verbatim>\<open>random_seed_\<close> and \<^verbatim>\<open>regression_\<close> of the
  class \<^verbatim>\<open>CrossValidator\<close> (a name cannot end with an underscore here, so each carries the
  prefix \<open>cv\<close> instead).
\<close>

record 'r CrossValidator =
  cv_data :: "'r DataFrame"
  cv_k_folds :: int
  cv_random_seed :: int
  cv_regression :: bool

section \<open>The constructor\<close>

text \<open>
  The member initialisers copy the four arguments; the body is two assertions, checked in
  this order. A failed \<^verbatim>\<open>assert\<close> ends the construction (the build scripts compile without
  \<^verbatim>\<open>NDEBUG\<close>, so the assertions are checked).
\<close>

definition CrossValidator :: "'r DataFrame \<Rightarrow> int \<Rightarrow> int \<Rightarrow> bool \<Rightarrow> error + 'r CrossValidator" where
  "CrossValidator data k_folds seed regression =
     (if \<not> k_folds > 1 then Inl AssertionFailed
      else if \<not> length_df data \<ge> k_folds then Inl AssertionFailed
      else Inr \<lparr>cv_data = data, cv_k_folds = k_folds, cv_random_seed = seed, cv_regression = regression\<rparr>)"

section \<open>createKFolds\<close>

text \<open>
  The inner loop \<^verbatim>\<open>for (int i = 0; i < fold; i++) start_idx += fold_size + (i < remainder ? 1 : 0)\<close>.
\<close>

function start_idx_loop :: "int \<Rightarrow> int \<Rightarrow> int \<Rightarrow> int \<Rightarrow> int \<Rightarrow> int" where
  "start_idx_loop fold_size remainder fold_id i start_idx =
     (if i < fold_id
      then start_idx_loop fold_size remainder fold_id (i + 1)
             (start_idx + (fold_size + (if i < remainder then 1 else 0)))
      else start_idx)"
  by pat_completeness auto
termination
  by (relation "measure (\<lambda>(fold_size, remainder, fold_id, i, start_idx). nat (fold_id - i))") auto

text \<open>
  The loop \<^verbatim>\<open>for (int i = start_idx; i < end_idx; i++) validation_data.addRow(shuffled_data.row(i))\<close>.
\<close>

function validation_loop :: "'r DataFrame \<Rightarrow> int \<Rightarrow> int \<Rightarrow> 'r DataFrame \<Rightarrow> error + 'r DataFrame" where
  "validation_loop shuffled_data end_idx i validation_data =
     (if i < end_idx
      then (case row shuffled_data i of
              Inl e \<Rightarrow> Inl e
            | Inr r \<Rightarrow> validation_loop shuffled_data end_idx (i + 1) (addRow validation_data r))
      else Inr validation_data)"
  by pat_completeness auto
termination
  by (relation "measure (\<lambda>(shuffled_data, end_idx, i, validation_data). nat (end_idx - i))") auto

text \<open>
  The loop over all rows of the shuffled data that keeps the rows outside
  \<open>[start_idx, end_idx)\<close>.
\<close>

function training_loop :: "'r DataFrame \<Rightarrow> int \<Rightarrow> int \<Rightarrow> int \<Rightarrow> 'r DataFrame \<Rightarrow> error + 'r DataFrame" where
  "training_loop shuffled_data start_idx end_idx i training_data =
     (if i < length_df shuffled_data
      then (if i < start_idx \<or> i \<ge> end_idx
            then (case row shuffled_data i of
                    Inl e \<Rightarrow> Inl e
                  | Inr r \<Rightarrow> training_loop shuffled_data start_idx end_idx (i + 1)
                             (addRow training_data r))
            else training_loop shuffled_data start_idx end_idx (i + 1) training_data)
      else Inr training_data)"
  by pat_completeness auto
termination
  by (relation "measure (\<lambda>(shuffled_data, start_idx, end_idx, i, training_data).
                   nat (length_df shuffled_data - i))") auto

text \<open>
  The outer loop \<^verbatim>\<open>for (int fold = 0; fold < k; fold++)\<close>. A fold pair, a vector of two data
  frames in the source, is the pair (training data, validation data).
\<close>

function folds_loop ::
  "'r DataFrame \<Rightarrow> int \<Rightarrow> int \<Rightarrow> int \<Rightarrow> int \<Rightarrow> ('r DataFrame \<times> 'r DataFrame) list
     \<Rightarrow> error + ('r DataFrame \<times> 'r DataFrame) list" where
  "folds_loop shuffled_data k fold_size remainder fold_id folds =
     (if fold_id < k
      then (let current_fold_size = fold_size + (if fold_id < remainder then 1 else 0);
                start_idx = start_idx_loop fold_size remainder fold_id 0 0;
                end_idx = start_idx + current_fold_size
            in case validation_loop shuffled_data end_idx start_idx [] of
                 Inl e \<Rightarrow> Inl e
               | Inr validation_data \<Rightarrow>
                   (case training_loop shuffled_data start_idx end_idx 0 [] of
                      Inl e \<Rightarrow> Inl e
                    | Inr training_data \<Rightarrow>
                        folds_loop shuffled_data k fold_size remainder (fold_id + 1)
                          (folds @ [(training_data, validation_data)])))
      else Inr folds)"
  by pat_completeness auto
termination
  by (relation "measure (\<lambda>(shuffled_data, k, fold_size, remainder, fold_id, folds). nat (k - fold_id))")
    auto

text \<open>
  \<^verbatim>\<open>createKFolds(data, k, seed)\<close>: shuffle with \<^verbatim>\<open>data.sample(-1, seed, false)\<close>, then cut.
  The integer division and remainder of C++ truncate towards zero (\<open>sdiv\<close>, \<open>smod\<close>) and
  are undefined for \<open>k = 0\<close>.
\<close>

definition createKFolds ::
  "('r, 'v, 't) externals \<Rightarrow> 'r DataFrame \<Rightarrow> int \<Rightarrow> int
     \<Rightarrow> error + ('r DataFrame \<times> 'r DataFrame) list" where
  "createKFolds ext data k seed =
     (let shuffled_data = sample ext data (- 1) seed False
      in if k = 0 then Inl DivisionByZero
         else (let fold_size = length_df shuffled_data sdiv k;
                   remainder = length_df shuffled_data smod k
               in folds_loop shuffled_data k fold_size remainder 0 []))"

section \<open>calculateMeanStd\<close>

text \<open>
  The two range-based loops over the scores, each with its accumulator (\<open>sum_acc\<close> is the
  variable \<^verbatim>\<open>sum\<close> of the source).
\<close>

fun sum_loop :: "real list \<Rightarrow> real \<Rightarrow> real" where
  "sum_loop [] sum_acc = sum_acc"
| "sum_loop (score # scores) sum_acc = sum_loop scores (sum_acc + score)"

fun variance_loop :: "real list \<Rightarrow> real \<Rightarrow> real \<Rightarrow> real" where
  "variance_loop [] mean variance_sum = variance_sum"
| "variance_loop (score # scores) mean variance_sum =
     (let diff = score - mean in variance_loop scores mean (variance_sum + diff * diff))"

definition calculateMeanStd :: "real list \<Rightarrow> real \<times> real" where
  "calculateMeanStd scores =
     (if scores = [] then (0, 0)
      else (let sum_acc = sum_loop scores 0;
                mean = sum_acc / real (length scores);
                variance_sum = variance_loop scores mean 0;
                std_dev = sqrt (variance_sum / real (length scores))
            in (mean, std_dev)))"

section \<open>validateSingleHyperparameter\<close>

text \<open>
  The state of the fold loop is the vector \<^verbatim>\<open>fold_scores\<close> together with the list of the
  \<^verbatim>\<open>DecisionTree\<close> constructor calls made so far, which records the effect "a tree was
  trained". One iteration reads \<^verbatim>\<open>folds[fold][0]\<close> and \<^verbatim>\<open>folds[fold][1]\<close>, trains, predicts,
  scores and writes \<^verbatim>\<open>fold_scores[fold]\<close>. Both vectors hold \<^verbatim>\<open>k_folds_\<close> entries and the loop
  keeps the index from 0 below \<^verbatim>\<open>k_folds_\<close>, so every access is in range. The progress
  message printed by the master thread is console output and is not modelled.
\<close>

type_synonym 'r fold_state = "real list \<times> 'r DecisionTree_call list"

text \<open>
  The sum of two C++ \<^verbatim>\<open>int\<close> values: the mathematical sum where that lies between
  \<open>-2147483648\<close> and \<open>2147483647\<close>. Beyond that range the language leaves the signed overflow
  undefined; the two's complement machines of the builds wrap around, and so does the
  model.
\<close>

definition int_add :: "int \<Rightarrow> int \<Rightarrow> int" where
  "int_add a b = (a + b + 2147483648) mod 4294967296 - 2147483648"

text \<open>
  Constructing a \<^verbatim>\<open>DecisionTree\<close> is the effect of training: the constructor returns the
  tree and the call joins the list of the calls made, so the list holds exactly the
  argument tuples the trees were built from.
\<close>

definition construct_DecisionTree ::
  "('r, 'v, 't) externals \<Rightarrow> 'r DecisionTree_call \<Rightarrow> 'r DecisionTree_call list
     \<Rightarrow> 't \<times> 'r DecisionTree_call list" where
  "construct_DecisionTree ext call calls = (DecisionTree ext call, calls @ [call])"

definition fold_body ::
  "('r, 'v, 't) externals \<Rightarrow> 'r CrossValidator \<Rightarrow> HyperparameterSet
     \<Rightarrow> ('r DataFrame \<times> 'r DataFrame) list \<Rightarrow> int \<Rightarrow> 'r fold_state \<Rightarrow> 'r fold_state" where
  "fold_body ext cv params folds fold_id st =
     (let train_data = fst (folds ! nat fold_id);
          val_data = snd (folds ! nat fold_id);
          call = \<lparr>tree_data = train_data,
                  tree_regression = cv_regression cv,
                  tree_loss = loss params,
                  tree_mtry = - 1,
                  tree_max_height = HyperparameterSet.max_depth params,
                  tree_max_leaves = - 1,
                  tree_min_obs = min_obs params,
                  tree_max_prop = - 1,
                  tree_seed = int_add (cv_random_seed cv) fold_id\<rparr>;
          (tree, calls) = construct_DecisionTree ext call (snd st);
          predictions = predict ext tree val_data;
          true_labels = col ext val_data (- 1);
          fold_accuracy = accuracy ext true_labels predictions
      in ((fst st)[nat fold_id := fold_accuracy], calls))"

text \<open>The loop \<^verbatim>\<open>for (fold = 0; fold < k_folds_; fold++)\<close>, its iterations in index order.\<close>

function fold_loop ::
  "('r, 'v, 't) externals \<Rightarrow> 'r CrossValidator \<Rightarrow> HyperparameterSet
     \<Rightarrow> ('r DataFrame \<times> 'r DataFrame) list \<Rightarrow> int \<Rightarrow> 'r fold_state \<Rightarrow> 'r fold_state" where
  "fold_loop ext cv params folds fold_id st =
     (if fold_id < cv_k_folds cv
      then fold_loop ext cv params folds (fold_id + 1) (fold_body ext cv params folds fold_id st)
      else st)"
  by pat_completeness auto
termination
  by (relation "measure (\<lambda>(ext, cv, params, folds, fold_id, st). nat (cv_k_folds cv - fold_id))")
    auto

text \<open>
  Under \<^verbatim>\<open>#pragma omp parallel for\<close> the iterations of the same loop are handed to the
  threads of the team. Every iteration works on its own copies of the fold's data and
  writes only its own slot of \<^verbatim>\<open>fold_scores\<close>, so a run of the parallel region is
  described by its schedule: the fold indices in the order in which their iterations
  complete. The number of threads decides which schedules can occur.
\<close>

fun fold_schedule ::
  "('r, 'v, 't) externals \<Rightarrow> 'r CrossValidator \<Rightarrow> HyperparameterSet
     \<Rightarrow> ('r DataFrame \<times> 'r DataFrame) list \<Rightarrow> int list \<Rightarrow> 'r fold_state \<Rightarrow> 'r fold_state" where
  "fold_schedule ext cv params folds [] st = st"
| "fold_schedule ext cv params folds (fold_id # schedule) st =
     fold_schedule ext cv params folds schedule (fold_body ext cv params folds fold_id st)"

text \<open>
  \<^verbatim>\<open>validateSingleHyperparameter\<close> with the fold loop as a parameter: create the folds,
  allocate \<^verbatim>\<open>fold_scores(k_folds_, 0.0)\<close>, run the loop, aggregate, build the result with
  \<^verbatim>\<open>CVResult(dataset_name, params.max_depth, 0.0, mean_std.first, mean_std.second, fold_scores)\<close>.
  The second component is the list of the trees trained.
\<close>

definition validate_with ::
  "(('r DataFrame \<times> 'r DataFrame) list \<Rightarrow> 'r fold_state \<Rightarrow> 'r fold_state)
     \<Rightarrow> ('r, 'v, 't) externals \<Rightarrow> 'r CrossValidator \<Rightarrow> string
     \<Rightarrow> HyperparameterSet \<Rightarrow> error + CVResult \<times> 'r DecisionTree_call list" where
  "validate_with run_folds ext cv dataset_name params =
     (case createKFolds ext (cv_data cv) (cv_k_folds cv) (cv_random_seed cv) of
        Inl e \<Rightarrow> Inl e
      | Inr folds \<Rightarrow>
          (let st = run_folds folds (replicate (nat (cv_k_folds cv)) 0, []);
               fold_scores = fst st;
               mean_std = calculateMeanStd fold_scores
           in Inr (\<lparr>dataset = dataset_name,
                      CVResult.max_depth = HyperparameterSet.max_depth params,
                      cv_time_ms = 0,
                      mean_cv_accuracy = fst mean_std,
                      std_cv_accuracy = snd mean_std,
                      fold_scores = fold_scores\<rparr>, snd st)))"

definition validateSingleHyperparameter_trace ::
  "('r, 'v, 't) externals \<Rightarrow> 'r CrossValidator \<Rightarrow> HyperparameterSet \<Rightarrow> string
     \<Rightarrow> error + CVResult \<times> 'r DecisionTree_call list" where
  "validateSingleHyperparameter_trace ext cv params dataset_name =
     validate_with (\<lambda>folds st. fold_loop ext cv params folds 0 st) ext cv dataset_name params"

definition validateSingleHyperparameter ::
  "('r, 'v, 't) externals \<Rightarrow> 'r CrossValidator \<Rightarrow> HyperparameterSet \<Rightarrow> string
     \<Rightarrow> error + CVResult" where
  "validateSingleHyperparameter ext cv params dataset_name =
     map_sum id fst (validateSingleHyperparameter_trace ext cv params dataset_name)"

text \<open>The same function when the parallel region runs under a given schedule.\<close>

definition validateSingleHyperparameter_parallel_trace ::
  "('r, 'v, 't) externals \<Rightarrow> 'r CrossValidator \<Rightarrow> HyperparameterSet \<Rightarrow> string \<Rightarrow> int list
     \<Rightarrow> error + CVResult \<times> 'r DecisionTree_call list" where
  "validateSingleHyperparameter_parallel_trace ext cv params dataset_name schedule =
     validate_with (\<lambda>folds st. fold_schedule ext cv params folds schedule st)
       ext cv dataset_name params"

definition validateSingleHyperparameter_parallel ::
  "('r, 'v, 't) externals \<Rightarrow> 'r CrossValidator \<Rightarrow> HyperparameterSet \<Rightarrow> string \<Rightarrow> int list
     \<Rightarrow> error + CVResult" where
  "validateSingleHyperparameter_parallel ext cv params dataset_name schedule =
     map_sum id fst
       (validateSingleHyperparameter_parallel_trace ext cv params dataset_name schedule)"

section \<open>validateDepth, gridSearchCV, validateDepths\<close>

definition validateDepth ::
  "('r, 'v, 't) externals \<Rightarrow> 'r CrossValidator \<Rightarrow> int \<Rightarrow> string \<Rightarrow> error + CVResult" where
  "validateDepth ext cv depth dataset_name =
     (let params = HyperparameterSet_depth depth
      in validateSingleHyperparameter ext cv params dataset_name)"

text \<open>
  The loop of \<^verbatim>\<open>gridSearchCV\<close> pushes one result per parameter set; a failing call ends
  the whole search.
\<close>

fun gridSearchCV_loop ::
  "('r, 'v, 't) externals \<Rightarrow> 'r CrossValidator \<Rightarrow> string \<Rightarrow> HyperparameterSet list
     \<Rightarrow> CVResult list \<Rightarrow> error + CVResult list" where
  "gridSearchCV_loop ext cv dataset_name [] results = Inr results"
| "gridSearchCV_loop ext cv dataset_name (params # param_grid) results =
     (case validateSingleHyperparameter ext cv params dataset_name of
        Inl e \<Rightarrow> Inl e
      | Inr result \<Rightarrow> gridSearchCV_loop ext cv dataset_name param_grid (results @ [result]))"

definition gridSearchCV ::
  "('r, 'v, 't) externals \<Rightarrow> 'r CrossValidator \<Rightarrow> HyperparameterSet list \<Rightarrow> string
     \<Rightarrow> error + CVResult list" where
  "gridSearchCV ext cv param_grid dataset_name = gridSearchCV_loop ext cv dataset_name param_grid []"

fun param_grid_loop :: "int list \<Rightarrow> HyperparameterSet list \<Rightarrow> HyperparameterSet list" where
  "param_grid_loop [] param_grid = param_grid"
| "param_grid_loop (depth # depths) param_grid =
     param_grid_loop depths (param_grid @ [HyperparameterSet_depth depth])"

definition validateDepths ::
  "('r, 'v, 't) externals \<Rightarrow> 'r CrossValidator \<Rightarrow> int list \<Rightarrow> string \<Rightarrow> error + CVResult list" where
  "validateDepths ext cv depths dataset_name =
     (let param_grid = param_grid_loop depths []
      in gridSearchCV ext cv param_grid dataset_name)"

section \<open>getBestParams\<close>

text \<open>
  The scan keeps the pair \<^verbatim>\<open>(best_score, best_depth)\<close> and replaces it on a strictly
  greater mean accuracy. The value returned is \<^verbatim>\<open>HyperparameterSet(best_depth)\<close>.
\<close>

fun best_loop :: "CVResult list \<Rightarrow> real \<times> int \<Rightarrow> real \<times> int" where
  "best_loop [] best = best"
| "best_loop (result # cv_results) best =
     (if mean_cv_accuracy result > fst best
      then best_loop cv_results (mean_cv_accuracy result, CVResult.max_depth result)
      else best_loop cv_results best)"

definition getBestParams :: "CVResult list \<Rightarrow> HyperparameterSet" where
  "getBestParams cv_results =
     (case cv_results of
        [] \<Rightarrow> HyperparameterSet_default
      | first # _ \<Rightarrow>
          (let best = best_loop cv_results (mean_cv_accuracy first, CVResult.max_depth first)
           in HyperparameterSet_depth (snd best)))"

section \<open>Auxiliary definitions for the proofs\<close>

text \<open>
  The closed form of the start index of block \<open>i\<close> when \<open>n\<close> rows are cut into \<open>k\<close> blocks,
  and the fold pair that belongs to it.
\<close>

definition block_start :: "nat \<Rightarrow> nat \<Rightarrow> nat \<Rightarrow> nat" where
  "block_start n k i = i * (n div k) + min i (n mod k)"

definition fold_pair :: "'r list \<Rightarrow> nat \<Rightarrow> nat \<Rightarrow> 'r list \<times> 'r list" where
  "fold_pair s k i =
     (take (block_start (length s) k i) s @ drop (block_start (length s) k (Suc i)) s,
      drop (block_start (length s) k i) (take (block_start (length s) k (Suc i)) s))"

text \<open>
  The folds of a validator in closed form, the constructor call and the score of fold \<open>i\<close>
  as one iteration of the fold loop computes them, and the result assembled from the
  scores of all folds.
\<close>

definition shuffled_folds ::
  "('r, 'v, 't) externals \<Rightarrow> 'r DataFrame \<Rightarrow> int \<Rightarrow> int \<Rightarrow> ('r DataFrame \<times> 'r DataFrame) list" where
  "shuffled_folds ext data k seed =
     map (fold_pair (sample ext data (- 1) seed False) (nat k)) [0..<nat k]"

definition fold_call ::
  "'r CrossValidator \<Rightarrow> HyperparameterSet \<Rightarrow> ('r DataFrame \<times> 'r DataFrame) list \<Rightarrow> nat
     \<Rightarrow> 'r DecisionTree_call" where
  "fold_call cv params folds i =
     \<lparr>tree_data = fst (folds ! i),
      tree_regression = cv_regression cv,
      tree_loss = loss params,
      tree_mtry = - 1,
      tree_max_height = HyperparameterSet.max_depth params,
      tree_max_leaves = - 1,
      tree_min_obs = min_obs params,
      tree_max_prop = - 1,
      tree_seed = int_add (cv_random_seed cv) (int i)\<rparr>"

definition fold_score ::
  "('r, 'v, 't) externals \<Rightarrow> 'r CrossValidator \<Rightarrow> HyperparameterSet
     \<Rightarrow> ('r DataFrame \<times> 'r DataFrame) list \<Rightarrow> nat \<Rightarrow> real" where
  "fold_score ext cv params folds i =
     accuracy ext (col ext (snd (folds ! i)) (- 1))
       (predict ext (DecisionTree ext (fold_call cv params folds i)) (snd (folds ! i)))"

definition fold_result ::
  "('r, 'v, 't) externals \<Rightarrow> 'r CrossValidator \<Rightarrow> HyperparameterSet \<Rightarrow> string
     \<Rightarrow> ('r DataFrame \<times> 'r DataFrame) list \<Rightarrow> CVResult" where
  "fold_result ext cv params dataset_name folds =
     (let scores = map (fold_score ext cv params folds) [0..<nat (cv_k_folds cv)]
      in \<lparr>dataset = dataset_name,
          CVResult.max_depth = HyperparameterSet.max_depth params,
          cv_time_ms = 0,
          mean_cv_accuracy = fst (calculateMeanStd scores),
          std_cv_accuracy = snd (calculateMeanStd scores),
          fold_scores = scores\<rparr>)"

text \<open>
  A concrete instance for the examples: a row is a pair (feature, label), the shuffle
  reverses the rows, a tree predicts the parity of its seed for every row, and the accuracy
  is the fraction of positions that agree.
\<close>

definition example_ext :: "(nat \<times> nat, nat list, nat) externals" where
  "example_ext =
     \<lparr>sample = (\<lambda>df n seed replace. rev df),
      col = (\<lambda>df i. map snd df),
      DecisionTree = (\<lambda>call. nat (tree_seed call mod 2)),
      predict = (\<lambda>tree df. map (\<lambda>r. tree) df),
      accuracy = (\<lambda>true_labels predictions.
         real (length (filter (\<lambda>(x, y). x = y) (zip true_labels predictions)))
           / real (length true_labels))\<rparr>"

definition example_data :: "(nat \<times> nat) list" where
  "example_data = [(0, 0), (1, 1), (2, 0), (3, 1), (4, 1)]"

definition example_cv :: "(nat \<times> nat) CrossValidator" where
  "example_cv =
     \<lparr>cv_data = example_data, cv_k_folds = 2, cv_random_seed = 42, cv_regression = False\<rparr>"

definition example_cv_max :: "(nat \<times> nat) CrossValidator" where
  "example_cv_max =
     \<lparr>cv_data = example_data, cv_k_folds = 2, cv_random_seed = 2147483647,
      cv_regression = False\<rparr>"

definition example_params :: HyperparameterSet where
  "example_params = \<lparr>HyperparameterSet.max_depth = 3, min_obs = 5, loss = ''variance''\<rparr>"

definition example_results :: "CVResult list" where
  "example_results =
     [\<lparr>dataset = ''example'', CVResult.max_depth = 1, cv_time_ms = 0, mean_cv_accuracy = 1 / 2,
       std_cv_accuracy = 0, fold_scores = [1 / 2, 1 / 2]\<rparr>,
      \<lparr>dataset = ''example'', CVResult.max_depth = 2, cv_time_ms = 0, mean_cv_accuracy = 3 / 4,
       std_cv_accuracy = 1 / 4, fold_scores = [1, 1 / 2]\<rparr>,
      \<lparr>dataset = ''example'', CVResult.max_depth = 3, cv_time_ms = 0, mean_cv_accuracy = 3 / 4,
       std_cv_accuracy = 1 / 4, fold_scores = [1 / 2, 1]\<rparr>]"

declare start_idx_loop.simps [simp del] validation_loop.simps [simp del]
  training_loop.simps [simp del] folds_loop.simps [simp del] fold_loop.simps [simp del]

section \<open>The fold construction in closed form\<close>

lemma start_idx_loop_closed:
  "0 \<le> remainder \<Longrightarrow> start_idx_loop fold_size remainder fold_id i start_idx =
     start_idx + (if i < fold_id
                  then (fold_id - i) * fold_size + max 0 (min fold_id remainder - i) else 0)"
proof (induction fold_size remainder fold_id i start_idx rule: start_idx_loop.induct)
  case (1 fold_size remainder fold_id i start_idx)
  show ?case
  proof (cases "i < fold_id")
    case True
    have step: "start_idx_loop fold_size remainder fold_id i start_idx =
       start_idx_loop fold_size remainder fold_id (i + 1)
             (start_idx + (fold_size + (if i < remainder then 1 else 0)))"
      using True by (subst start_idx_loop.simps) simp
    show ?thesis
    proof (cases "i + 1 < fold_id")
      case True
      with \<open>i < fold_id\<close> 1 show ?thesis unfolding step
        apply (simp add: min_def max_def)
        apply (simp add: algebra_simps)
        done
    next
      case False
      with \<open>i < fold_id\<close> have "fold_id = i + 1" by simp
      with \<open>i < fold_id\<close> 1 show ?thesis unfolding step
        by (simp add: min_def max_def)
    qed
  next
    case False
    then show ?thesis by (subst start_idx_loop.simps) simp
  qed
qed

lemma start_idx_block_start:
  assumes "0 \<le> fold_id"
  shows "start_idx_loop (int (n div k)) (int (n mod k)) fold_id 0 0
           = int (block_start n k (nat fold_id))"
proof -
  obtain j where j: "fold_id = int j" using assms by (metis nonneg_int_cases)
  have "start_idx_loop (int (n div k)) (int (n mod k)) (int j) 0 0 =
        (if 0 < j then int j * int (n div k) + max 0 (min (int j) (int (n mod k))) else 0)"
    by (subst start_idx_loop_closed) simp_all
  also have "\<dots> = int (block_start n k j)"
    by (simp add: block_start_def min_def)
  finally show ?thesis by (simp add: j)
qed

lemma block_start_Suc:
  "block_start n k (Suc i) = block_start n k i + n div k + (if i < n mod k then 1 else 0)"
  by (simp add: block_start_def min_def)

lemma block_start_mono: "i \<le> j \<Longrightarrow> block_start n k i \<le> block_start n k j"
  unfolding block_start_def by (intro add_mono mult_le_mono1) (simp_all add: min_def)

lemma block_start_k: "0 < k \<Longrightarrow> block_start n k k = n"
proof -
  assume "0 < k"
  then have "n mod k < k" by simp
  then have "block_start n k k = k * (n div k) + n mod k"
    by (simp add: block_start_def min_def)
  then show ?thesis by simp
qed

lemma block_start_le: "0 < k \<Longrightarrow> i \<le> k \<Longrightarrow> block_start n k i \<le> n"
  using block_start_mono [of i k n k] block_start_k [of k n] by simp

lemma row_in_range:
  "0 \<le> i \<Longrightarrow> nat i < length df \<Longrightarrow> row df i = Inr (df ! nat i)"
  by (simp add: row_def length_df_def)

lemma drop_take_step:
  "i < e \<Longrightarrow> i < length xs \<Longrightarrow> xs ! i # drop (Suc i) (take e xs) = drop i (take e xs)"
  using Cons_nth_drop_Suc [of i "take e xs"] by simp

lemma validation_loop_closed:
  "0 \<le> i \<Longrightarrow> nat end_idx \<le> length shuffled_data \<Longrightarrow>
   validation_loop shuffled_data end_idx i validation_data =
     Inr (validation_data @ drop (nat i) (take (nat end_idx) shuffled_data))"
proof (induction shuffled_data end_idx i validation_data rule: validation_loop.induct)
  case (1 shuffled_data end_idx i validation_data)
  show ?case
  proof (cases "i < end_idx")
    case True
    with 1(2,3) have lt: "nat i < nat end_idx" and r: "row shuffled_data i = Inr (shuffled_data ! nat i)"
      by (simp_all add: row_in_range)
    have "validation_loop shuffled_data end_idx i validation_data =
          validation_loop shuffled_data end_idx (i + 1) (addRow validation_data (shuffled_data ! nat i))"
      using True r by (subst validation_loop.simps) simp
    also have "\<dots> = Inr (addRow validation_data (shuffled_data ! nat i) @
                  drop (nat (i + 1)) (take (nat end_idx) shuffled_data))"
      using True r 1 by simp
    also have "nat (i + 1) = Suc (nat i)" using 1(2) by simp
    finally show ?thesis
      using drop_take_step [OF lt, of shuffled_data] lt 1(3) by (simp add: addRow_def)
  next
    case False
    then show ?thesis using 1(2) by (subst validation_loop.simps) simp
  qed
qed

lemma training_loop_closed:
  "0 \<le> i \<Longrightarrow> 0 \<le> start_idx \<Longrightarrow> start_idx \<le> end_idx \<Longrightarrow>
   training_loop shuffled_data start_idx end_idx i training_data =
     Inr (training_data @ drop (nat i) (take (nat start_idx) shuffled_data)
            @ drop (max (nat i) (nat end_idx)) shuffled_data)"
proof (induction shuffled_data start_idx end_idx i training_data rule: training_loop.induct)
  case (1 shuffled_data start_idx end_idx i training_data)
  let ?n = "length shuffled_data"
  show ?case
  proof (cases "i < length_df shuffled_data")
    case False
    then show ?thesis using 1(3)
      by (subst training_loop.simps) (simp add: length_df_def)
  next
    case True
    then have lt: "nat i < ?n" and r: "row shuffled_data i = Inr (shuffled_data ! nat i)"
      using 1(3) by (simp_all add: row_in_range length_df_def)
    have suc: "nat (i + 1) = Suc (nat i)" using 1(3) by simp
    consider (before) "i < start_idx" | (inside) "start_idx \<le> i" "i < end_idx" | (after) "end_idx \<le> i"
      by linarith
    then show ?thesis
    proof cases
      case before
      have "training_loop shuffled_data start_idx end_idx i training_data =
            training_loop shuffled_data start_idx end_idx (i + 1)
              (addRow training_data (shuffled_data ! nat i))"
        using True r before by (subst training_loop.simps) simp
      also have "\<dots> = Inr (addRow training_data (shuffled_data ! nat i) @
               drop (nat (i + 1)) (take (nat start_idx) shuffled_data)
                 @ drop (max (nat (i + 1)) (nat end_idx)) shuffled_data)"
        using 1(1) [OF True _ r] before 1(3,4,5) by simp
      finally have eq: "training_loop shuffled_data start_idx end_idx i training_data =
            Inr (addRow training_data (shuffled_data ! nat i) @
               drop (nat (i + 1)) (take (nat start_idx) shuffled_data)
                 @ drop (max (nat (i + 1)) (nat end_idx)) shuffled_data)" .
      have a: "nat i < nat start_idx" "max (Suc (nat i)) (nat end_idx) = nat end_idx"
        "max (nat i) (nat end_idx) = nat end_idx"
        using before 1(3,4,5) by simp_all
      show ?thesis
        unfolding eq suc a using drop_take_step [OF a(1) lt]
        by (simp add: addRow_def)
    next
      case inside
      have "training_loop shuffled_data start_idx end_idx i training_data =
            training_loop shuffled_data start_idx end_idx (i + 1) training_data"
        using True inside by (subst training_loop.simps) simp
      also have "\<dots> = Inr (training_data @
               drop (nat (i + 1)) (take (nat start_idx) shuffled_data)
                 @ drop (max (nat (i + 1)) (nat end_idx)) shuffled_data)"
        using 1(2) [OF True] inside 1(3,4,5) by simp
      finally have eq: "training_loop shuffled_data start_idx end_idx i training_data =
            Inr (training_data @
               drop (nat (i + 1)) (take (nat start_idx) shuffled_data)
                 @ drop (max (nat (i + 1)) (nat end_idx)) shuffled_data)" .
      have a: "nat start_idx \<le> nat i" "max (Suc (nat i)) (nat end_idx) = nat end_idx"
        "max (nat i) (nat end_idx) = nat end_idx"
        using inside 1(3,4,5) by simp_all
      show ?thesis
        unfolding eq suc a using a(1) by simp
    next
      case after
      have "training_loop shuffled_data start_idx end_idx i training_data =
            training_loop shuffled_data start_idx end_idx (i + 1)
              (addRow training_data (shuffled_data ! nat i))"
        using True r after by (subst training_loop.simps) simp
      also have "\<dots> = Inr (addRow training_data (shuffled_data ! nat i) @
               drop (nat (i + 1)) (take (nat start_idx) shuffled_data)
                 @ drop (max (nat (i + 1)) (nat end_idx)) shuffled_data)"
        using 1(1) [OF True _ r] after 1(3,4,5) by simp
      finally have eq: "training_loop shuffled_data start_idx end_idx i training_data =
            Inr (addRow training_data (shuffled_data ! nat i) @
               drop (nat (i + 1)) (take (nat start_idx) shuffled_data)
                 @ drop (max (nat (i + 1)) (nat end_idx)) shuffled_data)" .
      have a: "nat start_idx \<le> nat i" "max (Suc (nat i)) (nat end_idx) = Suc (nat i)"
        "max (nat i) (nat end_idx) = nat i"
        using after 1(3,4,5) by simp_all
      show ?thesis
        unfolding eq suc a using a(1) Cons_nth_drop_Suc [OF lt]
        by (simp add: addRow_def)
    qed
  qed
qed

lemma folds_loop_step:
  assumes "0 < k" "j < k"
  shows "folds_loop s (int k) (int (length s div k)) (int (length s mod k)) (int j) folds =
         folds_loop s (int k) (int (length s div k)) (int (length s mod k)) (int j + 1)
           (folds @ [fold_pair s k j])"
proof -
  let ?n = "length s"
  let ?a = "block_start ?n k j"
  let ?b = "block_start ?n k (Suc j)"
  have start: "start_idx_loop (int (?n div k)) (int (?n mod k)) (int j) 0 0 = int ?a"
    by (simp add: start_idx_block_start)
  have end_eq: "int ?a + (int (?n div k) + (if j < ?n mod k then 1 else 0)) = int ?b"
    by (simp add: block_start_Suc)
  have le: "?b \<le> ?n"
    using assms by (intro block_start_le) simp_all
  have mono: "?a \<le> ?b"
    by (intro block_start_mono) simp
  have v: "validation_loop s (int ?b) (int ?a) [] = Inr (drop ?a (take ?b s))"
    using le by (subst validation_loop_closed) simp_all
  have t: "training_loop s (int ?a) (int ?b) 0 [] = Inr (take ?a s @ drop ?b s)"
    using mono by (subst training_loop_closed) simp_all
  have "folds_loop s (int k) (int (?n div k)) (int (?n mod k)) (int j) folds =
        (case validation_loop s (int ?b) (int ?a) [] of
           Inl e \<Rightarrow> Inl e
         | Inr validation_data \<Rightarrow>
             (case training_loop s (int ?a) (int ?b) 0 [] of
                Inl e \<Rightarrow> Inl e
              | Inr training_data \<Rightarrow>
                  folds_loop s (int k) (int (?n div k)) (int (?n mod k)) (int j + 1)
                    (folds @ [(training_data, validation_data)])))"
    using assms(2) by (subst folds_loop.simps) (simp only: Let_def start end_eq of_nat_less_iff if_True)
  then show ?thesis
    unfolding v t by (simp add: fold_pair_def)
qed

lemma sdiv_nonneg: "0 \<le> a \<Longrightarrow> 0 < b \<Longrightarrow> (a::int) sdiv b = a div b"
  by (cases "a = 0") (simp_all add: signed_divide_int_def)

lemma smod_nonneg: "0 \<le> a \<Longrightarrow> 0 < b \<Longrightarrow> (a::int) smod b = a mod b"
  by (cases "a = 0") (simp_all add: signed_modulo_int_def)

lemma folds_loop_closed:
  assumes "0 < k"
  shows "j \<le> k \<Longrightarrow>
         folds_loop s (int k) (int (length s div k)) (int (length s mod k)) (int j) folds =
           Inr (folds @ map (fold_pair s k) [j..<k])"
proof (induction "k - j" arbitrary: j folds)
  case 0
  then have "j = k" by simp
  then show ?case by (subst folds_loop.simps) simp
next
  case (Suc d)
  then have lt: "j < k" by simp
  have "folds_loop s (int k) (int (length s div k)) (int (length s mod k)) (int (Suc j))
          (folds @ [fold_pair s k j]) =
        Inr ((folds @ [fold_pair s k j]) @ map (fold_pair s k) [Suc j..<k])"
    using Suc lt by (intro Suc.hyps(1)) simp_all
  then show ?case
    using folds_loop_step [OF assms lt, of s folds] lt
    by (simp add: upt_conv_Cons add.commute)
qed

lemma createKFolds_closed:
  assumes "0 < k"
  shows "createKFolds ext data k seed =
         Inr (map (fold_pair (sample ext data (- 1) seed False) (nat k)) [0..<nat k])"
proof -
  let ?s = "sample ext data (- 1) seed False"
  have k: "k = int (nat k)" "0 < nat k" using assms by simp_all
  have d: "length_df ?s sdiv k = int (length ?s div nat k)"
    using assms by (simp add: length_df_def sdiv_nonneg zdiv_int)
  have m: "length_df ?s smod k = int (length ?s mod nat k)"
    using assms by (simp add: length_df_def smod_nonneg zmod_int)
  have "createKFolds ext data k seed = folds_loop ?s k (length_df ?s sdiv k) (length_df ?s smod k) 0 []"
    using assms by (simp add: createKFolds_def Let_def)
  also have "\<dots> = folds_loop ?s (int (nat k)) (int (length ?s div nat k))
                        (int (length ?s mod nat k)) (int 0) []"
    unfolding d m using k(1) by simp
  also have "\<dots> = Inr ([] @ map (fold_pair ?s (nat k)) [0..<nat k])"
    by (rule folds_loop_closed [OF k(2)]) simp
  finally show ?thesis by simp
qed

lemma drop_take_append:
  assumes "a \<le> b" "b \<le> c"
  shows "drop a (take b s) @ drop b (take c s) = drop a (take c s)"
proof -
  let ?t = "take c s"
  have tb: "take b ?t = take b s" using assms(2) by (simp add: min_def)
  have "drop a ?t = drop a (take b ?t @ drop b ?t)" by (simp only: append_take_drop_id)
  also have "\<dots> = drop a (take b ?t) @ drop (a - length (take b ?t)) (drop b ?t)"
    by (simp only: drop_append)
  also have "drop (a - length (take b ?t)) (drop b ?t) = drop b ?t"
  proof (cases "b \<le> length ?t")
    case True
    then have "a - length (take b ?t) = 0" using assms(1) by simp
    then show ?thesis by simp
  next
    case False
    then have "length ?t \<le> b" by linarith
    then have "drop b ?t = []" by (simp only: drop_all)
    then show ?thesis by (simp only: drop_Nil)
  qed
  finally show ?thesis by (simp only: tb)
qed

lemma concat_blocks:
  assumes "j \<le> m"
  shows "concat (map (\<lambda>i. drop (block_start n k i) (take (block_start n k (Suc i)) s)) [j..<m]) =
         drop (block_start n k j) (take (block_start n k m) s)"
  using assms
proof (induction m)
  case 0
  then show ?case by simp
next
  case (Suc m)
  show ?case
  proof (cases "j = Suc m")
    case True
    then show ?thesis by simp
  next
    case False
    with Suc.prems have jm: "j \<le> m" by simp
    then have "[j..<Suc m] = [j..<m] @ [m]" by simp
    then show ?thesis
      using Suc.IH [OF jm] drop_take_append [OF block_start_mono [OF jm] block_start_mono [of m "Suc m"]]
      by simp
  qed
qed

lemma block_start_0: "block_start n k 0 = 0"
  by (simp add: block_start_def)

lemma snd_fold_pair:
  "map snd (map (fold_pair s k) xs) =
   map (\<lambda>i. drop (block_start (length s) k i) (take (block_start (length s) k (Suc i)) s)) xs"
  by (simp add: fold_pair_def)

text \<open>
  Claim C1. For every positive \<open>k\<close>, so in particular for \<open>1 < k \<le> n\<close>, and every shuffle that
  returns a permutation of the rows, \<^verbatim>\<open>createKFolds\<close> returns exactly \<open>k\<close> pairs (training,
  validation). The validation subsets, laid end to end in fold order, are the shuffled
  sequence itself: they are consecutive blocks of it, so no position of the shuffled data
  lies in two of them and none is left out, and as a multiset of rows they are the dataset.
  Validation subset \<open>i\<close> has \<open>n div k + 1\<close> rows for \<open>i < n mod k\<close> and \<open>n div k\<close> rows
  otherwise; it is the slice of the shuffled sequence that starts where the earlier blocks
  end. The training subset of fold \<open>i\<close> is the concatenation of all the other blocks, in
  their order: the shuffled rows outside block \<open>i\<close>.
\<close>

theorem createKFolds_partition:
  assumes "0 < k" and "mset (sample ext data (- 1) seed False) = mset data"
  shows "\<exists>folds. createKFolds ext data k seed = Inr folds
           \<and> length folds = nat k
           \<and> concat (map snd folds) = sample ext data (- 1) seed False
           \<and> mset (concat (map snd folds)) = mset data
           \<and> (\<forall>i < nat k.
                 length (snd (folds ! i)) =
                   length data div nat k + (if i < length data mod nat k then 1 else 0)
               \<and> snd (folds ! i) =
                   take (length (snd (folds ! i)))
                     (drop (length (concat (map snd (take i folds))))
                        (sample ext data (- 1) seed False))
               \<and> fst (folds ! i) =
                   concat (map snd (take i folds)) @ concat (map snd (drop (Suc i) folds)))"
proof -
  let ?s = "sample ext data (- 1) seed False"
  let ?k = "nat k"
  let ?n = "length ?s"
  let ?folds = "map (fold_pair ?s ?k) [0..<?k]"
  have k: "0 < ?k" using assms(1) by simp
  have n: "?n = length data" using assms(2) by (rule mset_eq_length)
  have full: "block_start ?n ?k ?k = ?n" by (rule block_start_k [OF k])
  have whole: "concat (map snd ?folds) = ?s"
    unfolding snd_fold_pair using concat_blocks [of 0 ?k ?n ?k ?s]
    by (simp add: block_start_0 full)
  have each: "length (snd (?folds ! i)) =
                length data div ?k + (if i < length data mod ?k then 1 else 0)
            \<and> snd (?folds ! i) =
                take (length (snd (?folds ! i)))
                  (drop (length (concat (map snd (take i ?folds)))) ?s)
            \<and> fst (?folds ! i) =
                concat (map snd (take i ?folds)) @ concat (map snd (drop (Suc i) ?folds))"
    if i: "i < ?k" for i
  proof (intro conjI)
    have le: "block_start ?n ?k (Suc i) \<le> ?n"
      using i by (intro block_start_le [OF k]) simp
    have le': "block_start ?n ?k i \<le> ?n"
      using i by (intro block_start_le [OF k]) simp
    have len: "length (snd (?folds ! i)) = block_start ?n ?k (Suc i) - block_start ?n ?k i"
      using i le by (simp add: fold_pair_def min_def)
    also have "\<dots> = ?n div ?k + (if i < ?n mod ?k then 1 else 0)"
      by (simp add: block_start_Suc)
    finally show "length (snd (?folds ! i)) =
                length data div ?k + (if i < length data mod ?k then 1 else 0)"
      by (simp only: n)
    have before: "concat (map snd (take i ?folds)) = take (block_start ?n ?k i) ?s"
      using i concat_blocks [of 0 i ?n ?k ?s]
      by (simp add: take_map snd_fold_pair [simplified] block_start_0 fold_pair_def comp_def)
    have after: "concat (map snd (drop (Suc i) ?folds)) = drop (block_start ?n ?k (Suc i)) ?s"
      using i concat_blocks [of "Suc i" ?k ?n ?k ?s]
      by (simp add: drop_map full fold_pair_def comp_def)
    have offset: "length (concat (map snd (take i ?folds))) = block_start ?n ?k i"
      unfolding before using le' by simp
    have "snd (?folds ! i) = drop (block_start ?n ?k i) (take (block_start ?n ?k (Suc i)) ?s)"
      using i by (simp add: fold_pair_def)
    also have "\<dots> = take (block_start ?n ?k (Suc i) - block_start ?n ?k i)
                        (drop (block_start ?n ?k i) ?s)"
      by (rule drop_take)
    finally show "snd (?folds ! i) =
                take (length (snd (?folds ! i)))
                  (drop (length (concat (map snd (take i ?folds)))) ?s)"
      unfolding offset len .
    show "fst (?folds ! i) =
                concat (map snd (take i ?folds)) @ concat (map snd (drop (Suc i) ?folds))"
      unfolding before after using i by (simp add: fold_pair_def)
  qed
  have "createKFolds ext data k seed = Inr ?folds"
    by (rule createKFolds_closed [OF assms(1)])
  moreover have "length ?folds = ?k" by simp
  moreover have "mset (concat (map snd ?folds)) = mset data"
    unfolding whole by (rule assms(2))
  ultimately show ?thesis
    using whole each by blast
qed

theorem createKFolds_partition_witness:
  "(0::int) < 2 \<and> mset (sample example_ext example_data (- 1) 42 False) = mset example_data
   \<and> (\<exists>folds. createKFolds example_ext example_data 2 42 = Inr folds
           \<and> length folds = 2
           \<and> concat (map snd folds) = rev example_data
           \<and> mset (concat (map snd folds)) = mset example_data
           \<and> (\<forall>i < 2.
                 length (snd (folds ! i)) = 2 + (if i < 1 then 1 else 0)
               \<and> snd (folds ! i) =
                   take (length (snd (folds ! i)))
                     (drop (length (concat (map snd (take i folds)))) (rev example_data))
               \<and> fst (folds ! i) =
                   concat (map snd (take i folds)) @ concat (map snd (drop (Suc i) folds))))"
proof -
  have h1: "(0::int) < 2" by simp
  have h2: "mset (sample example_ext example_data (- 1) 42 False) = mset example_data"
    by (simp add: example_ext_def)
  show ?thesis
    using createKFolds_partition [OF h1 h2] h2
    by (simp add: example_ext_def example_data_def)
qed

section \<open>The constructor: claim C6\<close>

text \<open>
  Claim C6. Constructing a \<^verbatim>\<open>CrossValidator\<close> fails whenever \<open>k \<le> 1\<close> or the dataset has
  fewer than \<open>k\<close> rows: one of the two assertions of the constructor fails, which is the
  failure the spec calls \<^verbatim>\<open>InvalidFoldCount\<close>. For \<open>1 < k\<close> and at least \<open>k\<close> rows the
  construction succeeds and stores the dataset, the fold count, the seed and the task type
  unchanged.
\<close>

theorem CrossValidator_construction:
  "(k_folds \<le> 1 \<or> int (length data) < k_folds \<longrightarrow>
      CrossValidator data k_folds seed regression = Inl AssertionFailed)
   \<and> (1 < k_folds \<and> k_folds \<le> int (length data) \<longrightarrow>
      CrossValidator data k_folds seed regression =
        Inr \<lparr>cv_data = data, cv_k_folds = k_folds, cv_random_seed = seed,
             cv_regression = regression\<rparr>)"
  by (simp add: CrossValidator_def length_df_def)

theorem CrossValidator_construction_witness:
  "CrossValidator example_data 1 42 False = Inl AssertionFailed
   \<and> CrossValidator example_data 6 42 False = Inl AssertionFailed
   \<and> CrossValidator example_data 2 42 False = Inr example_cv"
  using CrossValidator_construction [of 1 example_data 42 False]
    CrossValidator_construction [of 6 example_data 42 False]
    CrossValidator_construction [of 2 example_data 42 False]
  by (simp add: example_data_def example_cv_def)

lemma constructed:
  assumes "CrossValidator data k seed regression = Inr cv"
  shows "1 < k" "k \<le> int (length data)"
    "cv = \<lparr>cv_data = data, cv_k_folds = k, cv_random_seed = seed, cv_regression = regression\<rparr>"
  using assms by (auto simp: CrossValidator_def length_df_def split: if_splits)

lemma example_constructed: "CrossValidator example_data 2 42 False = Inr example_cv"
  by (simp add: CrossValidator_def example_cv_def example_data_def length_df_def)

section \<open>calculateMeanStd: claim C7\<close>

lemma sum_loop_sum_list: "sum_loop scores sum_acc = sum_acc + sum_list scores"
  by (induction scores arbitrary: sum_acc) simp_all

lemma variance_loop_sum_list:
  "variance_loop scores mean variance_sum = variance_sum + (\<Sum>x\<leftarrow>scores. (x - mean)\<^sup>2)"
  by (induction scores arbitrary: variance_sum) (simp_all add: Let_def power2_eq_square)
lemma calculateMeanStd_nonempty:
  assumes "scores \<noteq> []"
  shows "calculateMeanStd scores =
           (sum_list scores / real (length scores),
            sqrt ((\<Sum>x\<leftarrow>scores. (x - sum_list scores / real (length scores))\<^sup>2)
                    / real (length scores)))"
  using assms
  by (simp add: calculateMeanStd_def Let_def sum_loop_sum_list variance_loop_sum_list)

text \<open>
  Claim C7. For every non-empty list of \<open>k\<close> scores the aggregation returns as mean the sum
  of the scores divided by \<open>k\<close>, and as standard deviation the population standard
  deviation: the square root of the sum of the squared deviations from that mean, divided
  by \<open>k\<close> and not by \<open>k - 1\<close>.
\<close>

theorem calculateMeanStd_population:
  assumes "scores \<noteq> []"
  shows "calculateMeanStd scores =
           (sum_list scores / real (length scores),
            sqrt ((\<Sum>x\<leftarrow>scores. (x - sum_list scores / real (length scores))\<^sup>2)
                    / real (length scores)))"
  using assms by (rule calculateMeanStd_nonempty)

theorem calculateMeanStd_population_witness:
  "[1, 0, 1, 0] \<noteq> ([] :: real list) \<and> calculateMeanStd [1, 0, 1, 0] = (1 / 2, 1 / 2)"
proof -
  have h: "[1, 0, 1, 0] \<noteq> ([] :: real list)" by simp
  have "sqrt (1 / 4) = 1 / 2" by (simp add: real_sqrt_divide)
  then show ?thesis
    using calculateMeanStd_population [OF h] by (simp add: power2_eq_square)
qed

section \<open>getBestParams: claim C10 and the scan\<close>

text \<open>
  Claim C10. On the empty list of results \<^verbatim>\<open>getBestParams\<close> does not fail; it returns the
  default hyperparameter set, \<open>max_depth = 5\<close>, \<open>min_obs = 1\<close>, \<open>loss = gini_impurity\<close>.
\<close>

theorem getBestParams_empty:
  "getBestParams [] = \<lparr>HyperparameterSet.max_depth = 5, min_obs = 1, loss = ''gini_impurity''\<rparr>"
  by (simp add: getBestParams_def HyperparameterSet_default_def)

lemma best_loop_scan:
  "best_loop cv_results (best_score, best_depth) = (s, d) \<Longrightarrow>
     (s = best_score \<and> d = best_depth
        \<and> (\<forall>j < length cv_results. mean_cv_accuracy (cv_results ! j) \<le> best_score))
     \<or> (\<exists>i < length cv_results.
           s = mean_cv_accuracy (cv_results ! i) \<and> d = CVResult.max_depth (cv_results ! i)
         \<and> best_score < s
         \<and> (\<forall>j < length cv_results. mean_cv_accuracy (cv_results ! j) \<le> s)
         \<and> (\<forall>j < i. mean_cv_accuracy (cv_results ! j) < s))"
proof (induction cv_results arbitrary: best_score best_depth)
  case Nil
  then show ?case by simp
next
  case (Cons r rs)
  show ?case
  proof (cases "mean_cv_accuracy r > best_score")
    case True
    with Cons.prems have "best_loop rs (mean_cv_accuracy r, CVResult.max_depth r) = (s, d)"
      by simp
    from Cons.IH [OF this] show ?thesis
    proof (elim disjE exE conjE)
      assume "s = mean_cv_accuracy r" "d = CVResult.max_depth r"
        "\<forall>j<length rs. mean_cv_accuracy (rs ! j) \<le> mean_cv_accuracy r"
      with True have "0 < length (r # rs) \<and> s = mean_cv_accuracy ((r # rs) ! 0)
          \<and> d = CVResult.max_depth ((r # rs) ! 0) \<and> best_score < s
          \<and> (\<forall>j < length (r # rs). mean_cv_accuracy ((r # rs) ! j) \<le> s)
          \<and> (\<forall>j < 0. mean_cv_accuracy ((r # rs) ! j) < s)"
        by (auto simp: nth_Cons')
      then show ?thesis by blast
    next
      fix i
      assume "i < length rs" "s = mean_cv_accuracy (rs ! i)" "d = CVResult.max_depth (rs ! i)"
        "mean_cv_accuracy r < s" "\<forall>j<length rs. mean_cv_accuracy (rs ! j) \<le> s"
        "\<forall>j<i. mean_cv_accuracy (rs ! j) < s"
      with True have "Suc i < length (r # rs) \<and> s = mean_cv_accuracy ((r # rs) ! Suc i)
          \<and> d = CVResult.max_depth ((r # rs) ! Suc i) \<and> best_score < s
          \<and> (\<forall>j < length (r # rs). mean_cv_accuracy ((r # rs) ! j) \<le> s)
          \<and> (\<forall>j < Suc i. mean_cv_accuracy ((r # rs) ! j) < s)"
        by (auto simp: nth_Cons' less_Suc_eq_0_disj)
      then show ?thesis by blast
    qed
  next
    case False
    with Cons.prems have "best_loop rs (best_score, best_depth) = (s, d)"
      by simp
    from Cons.IH [OF this] show ?thesis
    proof (elim disjE exE conjE)
      assume "s = best_score" "d = best_depth"
        "\<forall>j<length rs. mean_cv_accuracy (rs ! j) \<le> best_score"
      with False show ?thesis
        by (auto simp: nth_Cons')
    next
      fix i
      assume "i < length rs" "s = mean_cv_accuracy (rs ! i)" "d = CVResult.max_depth (rs ! i)"
        "best_score < s" "\<forall>j<length rs. mean_cv_accuracy (rs ! j) \<le> s"
        "\<forall>j<i. mean_cv_accuracy (rs ! j) < s"
      with False have "Suc i < length (r # rs) \<and> s = mean_cv_accuracy ((r # rs) ! Suc i)
          \<and> d = CVResult.max_depth ((r # rs) ! Suc i) \<and> best_score < s
          \<and> (\<forall>j < length (r # rs). mean_cv_accuracy ((r # rs) ! j) \<le> s)
          \<and> (\<forall>j < Suc i. mean_cv_accuracy ((r # rs) ! j) < s)"
        by (auto simp: nth_Cons' less_Suc_eq_0_disj)
      then show ?thesis by blast
    qed
  qed
qed

lemma getBestParams_singleton:
  "getBestParams [result] = HyperparameterSet_depth (CVResult.max_depth result)"
  by (simp add: getBestParams_def)

text \<open>
  What the scan computes on a non-empty list: the depth of the result with the maximum
  mean accuracy, the first such result in input order when several tie. The set returned
  is rebuilt from that depth alone.
\<close>

lemma getBestParams_first_maximum:
  assumes "cv_results \<noteq> []"
  shows "\<exists>i < length cv_results.
           (\<forall>j < length cv_results.
              mean_cv_accuracy (cv_results ! j) \<le> mean_cv_accuracy (cv_results ! i))
         \<and> (\<forall>j < i. mean_cv_accuracy (cv_results ! j) < mean_cv_accuracy (cv_results ! i))
         \<and> getBestParams cv_results =
             \<lparr>HyperparameterSet.max_depth = CVResult.max_depth (cv_results ! i),
              min_obs = 1, loss = ''gini_impurity''\<rparr>"
proof -
  obtain r rs where rs: "cv_results = r # rs" using assms by (cases cv_results) auto
  obtain s d where sd: "best_loop cv_results (mean_cv_accuracy r, CVResult.max_depth r) = (s, d)"
    by (cases "best_loop cv_results (mean_cv_accuracy r, CVResult.max_depth r)")
  have g: "getBestParams cv_results =
             \<lparr>HyperparameterSet.max_depth = d, min_obs = 1, loss = ''gini_impurity''\<rparr>"
    using sd by (simp add: getBestParams_def rs HyperparameterSet_depth_def Let_def)
  from best_loop_scan [OF sd] show ?thesis
  proof (elim disjE exE conjE)
    assume "s = mean_cv_accuracy r" "d = CVResult.max_depth r"
      "\<forall>j<length cv_results. mean_cv_accuracy (cv_results ! j) \<le> mean_cv_accuracy r"
    then have "0 < length cv_results
        \<and> (\<forall>j < length cv_results.
              mean_cv_accuracy (cv_results ! j) \<le> mean_cv_accuracy (cv_results ! 0))
        \<and> (\<forall>j < 0. mean_cv_accuracy (cv_results ! j) < mean_cv_accuracy (cv_results ! 0))
        \<and> getBestParams cv_results =
             \<lparr>HyperparameterSet.max_depth = CVResult.max_depth (cv_results ! 0),
              min_obs = 1, loss = ''gini_impurity''\<rparr>"
      using g by (simp add: rs)
    then show ?thesis by blast
  next
    fix i
    assume "i < length cv_results" "s = mean_cv_accuracy (cv_results ! i)"
      "d = CVResult.max_depth (cv_results ! i)"
      "\<forall>j<length cv_results. mean_cv_accuracy (cv_results ! j) \<le> s"
      "\<forall>j<i. mean_cv_accuracy (cv_results ! j) < s"
    then show ?thesis using g by blast
  qed
qed

lemma getBestParams_first_maximum_example:
  "example_results \<noteq> []
   \<and> (\<exists>i < length example_results.
           (\<forall>j < length example_results.
              mean_cv_accuracy (example_results ! j) \<le> mean_cv_accuracy (example_results ! i))
         \<and> (\<forall>j < i. mean_cv_accuracy (example_results ! j) < mean_cv_accuracy (example_results ! i))
         \<and> getBestParams example_results =
             \<lparr>HyperparameterSet.max_depth = CVResult.max_depth (example_results ! i),
              min_obs = 1, loss = ''gini_impurity''\<rparr>)
   \<and> getBestParams example_results =
        \<lparr>HyperparameterSet.max_depth = 2, min_obs = 1, loss = ''gini_impurity''\<rparr>"
proof -
  have h: "example_results \<noteq> []" by (simp add: example_results_def)
  have "getBestParams example_results =
        \<lparr>HyperparameterSet.max_depth = 2, min_obs = 1, loss = ''gini_impurity''\<rparr>"
    by (simp add: getBestParams_def example_results_def HyperparameterSet_depth_def)
  then show ?thesis
    using getBestParams_first_maximum [OF h] h by blast
qed

section \<open>The fold loop in closed form\<close>

lemma fold_body_eq:
  "fold_body ext cv params folds (int i) st =
     ((fst st)[i := fold_score ext cv params folds i], snd st @ [fold_call cv params folds i])"
  by (simp add: fold_body_def Let_def fold_score_def fold_call_def construct_DecisionTree_def)

lemma take_Suc_update: "j < length xs \<Longrightarrow> take (Suc j) (xs[j := v]) = take j xs @ [v]"
  by (simp add: take_Suc_conv_app_nth)

lemma fold_loop_closed:
  assumes "cv_k_folds cv = int k"
  shows "j \<le> k \<Longrightarrow> length scores = k \<Longrightarrow>
         fold_loop ext cv params folds (int j) (scores, trained) =
           (take j scores @ map (fold_score ext cv params folds) [j..<k],
            trained @ map (fold_call cv params folds) [j..<k])"
proof (induction "k - j" arbitrary: j scores trained)
  case 0
  then have "j = k" by simp
  then show ?case using 0 assms by (subst fold_loop.simps) simp
next
  case (Suc d)
  then have lt: "j < k" by simp
  have step: "fold_loop ext cv params folds (int j) (scores, trained) =
        fold_loop ext cv params folds (int (Suc j))
          (scores[j := fold_score ext cv params folds j], trained @ [fold_call cv params folds j])"
    using lt assms by (subst fold_loop.simps) (simp add: fold_body_eq add.commute)
  have "fold_loop ext cv params folds (int (Suc j))
          (scores[j := fold_score ext cv params folds j], trained @ [fold_call cv params folds j]) =
        (take (Suc j) (scores[j := fold_score ext cv params folds j])
           @ map (fold_score ext cv params folds) [Suc j..<k],
         (trained @ [fold_call cv params folds j]) @ map (fold_call cv params folds) [Suc j..<k])"
    using Suc lt by (intro Suc.hyps(1)) simp_all
  then show ?case
    unfolding step using lt Suc.prems
    by (simp add: upt_conv_Cons take_Suc_update)
qed

lemma fold_schedule_scores:
  "\<forall>f \<in> set schedule. 0 \<le> f \<and> f < int k \<Longrightarrow> length scores = k \<Longrightarrow>
   fst (fold_schedule ext cv params folds schedule (scores, trained)) =
     map (\<lambda>i. if int i \<in> set schedule then fold_score ext cv params folds i else scores ! i) [0..<k]"
proof (induction schedule arbitrary: scores trained)
  case Nil
  then show ?case using map_nth [of scores] by simp
next
  case (Cons f schedule)
  then obtain j where j: "f = int j" "j < k"
    by (metis list.set_intros(1) nonneg_int_cases of_nat_less_iff)
  have "fst (fold_schedule ext cv params folds (f # schedule) (scores, trained)) =
        fst (fold_schedule ext cv params folds schedule
          (scores[j := fold_score ext cv params folds j], trained @ [fold_call cv params folds j]))"
    by (simp add: j fold_body_eq)
  also have "\<dots> = map (\<lambda>i. if int i \<in> set schedule then fold_score ext cv params folds i
                         else scores[j := fold_score ext cv params folds j] ! i) [0..<k]"
    using Cons.prems by (intro Cons.IH) simp_all
  also have "\<dots> = map (\<lambda>i. if int i \<in> set (f # schedule) then fold_score ext cv params folds i
                         else scores ! i) [0..<k]"
    using Cons.prems(2) by (auto simp: j nth_list_update)
  finally show ?case .
qed

lemma validate_with_loop:
  assumes "createKFolds ext (cv_data cv) (cv_k_folds cv) (cv_random_seed cv) = Inr folds"
    and "0 \<le> cv_k_folds cv"
  shows "validateSingleHyperparameter_trace ext cv params dataset_name =
     Inr (fold_result ext cv params dataset_name folds,
          map (fold_call cv params folds) [0..<nat (cv_k_folds cv)])"
proof -
  let ?k = "nat (cv_k_folds cv)"
  have k: "cv_k_folds cv = int ?k" using assms(2) by simp
  have "fold_loop ext cv params folds (int 0) (replicate ?k 0, []) =
          (take 0 (replicate ?k 0) @ map (fold_score ext cv params folds) [0..<?k],
           [] @ map (fold_call cv params folds) [0..<?k])"
    by (rule fold_loop_closed [OF k]) simp_all
  then show ?thesis
    using assms(1)
    by (simp add: validateSingleHyperparameter_trace_def validate_with_def Let_def fold_result_def)
qed

lemma validate_with_schedule:
  assumes "createKFolds ext (cv_data cv) (cv_k_folds cv) (cv_random_seed cv) = Inr folds"
    and "set schedule = {0..<cv_k_folds cv}"
  shows "validateSingleHyperparameter_parallel ext cv params dataset_name schedule =
     Inr (fold_result ext cv params dataset_name folds)"
proof -
  let ?k = "nat (cv_k_folds cv)"
  have "fst (fold_schedule ext cv params folds schedule (replicate ?k 0, [])) =
     map (\<lambda>i. if int i \<in> set schedule then fold_score ext cv params folds i
               else replicate ?k 0 ! i) [0..<?k]"
    using assms(2) by (intro fold_schedule_scores) simp_all
  also have "\<dots> = map (fold_score ext cv params folds) [0..<?k]"
  proof (rule map_cong [OF refl])
    fix i assume "i \<in> set [0..<?k]"
    then have "int i \<in> set schedule" unfolding assms(2) by auto
    then show "(if int i \<in> set schedule then fold_score ext cv params folds i
                else replicate ?k 0 ! i) = fold_score ext cv params folds i"
      by simp
  qed
  finally show ?thesis
    using assms(1)
    by (simp add: validateSingleHyperparameter_parallel_def
        validateSingleHyperparameter_parallel_trace_def validate_with_def Let_def fold_result_def)
qed

lemma createKFolds_constructed:
  assumes "CrossValidator data k seed regression = Inr cv"
  shows "createKFolds ext (cv_data cv) (cv_k_folds cv) (cv_random_seed cv) =
           Inr (shuffled_folds ext data k seed)"
  using constructed [OF assms] createKFolds_closed [of k ext data seed]
  by (simp add: shuffled_folds_def)

lemma trace_constructed:
  assumes "CrossValidator data k seed regression = Inr cv"
  shows "validateSingleHyperparameter_trace ext cv params dataset_name =
     Inr (fold_result ext cv params dataset_name (shuffled_folds ext data k seed),
          map (fold_call cv params (shuffled_folds ext data k seed)) [0..<nat k])"
  using validate_with_loop [OF createKFolds_constructed [OF assms],
      where params = params and dataset_name = dataset_name]
    constructed [OF assms] by simp

lemma validate_constructed:
  assumes "CrossValidator data k seed regression = Inr cv"
  shows "validateSingleHyperparameter ext cv params dataset_name =
     Inr (fold_result ext cv params dataset_name (shuffled_folds ext data k seed))"
  by (simp add: validateSingleHyperparameter_def trace_constructed [OF assms])

lemma parallel_constructed:
  assumes "CrossValidator data k seed regression = Inr cv" and "set schedule = {0..<k}"
  shows "validateSingleHyperparameter_parallel ext cv params dataset_name schedule =
     Inr (fold_result ext cv params dataset_name (shuffled_folds ext data k seed))"
  using validate_with_schedule [OF createKFolds_constructed [OF assms(1)],
      where schedule = schedule and params = params and dataset_name = dataset_name]
    constructed [OF assms(1)] assms(2) by simp

lemma fold_result_simps:
  "dataset (fold_result ext cv params dataset_name folds) = dataset_name"
  "CVResult.max_depth (fold_result ext cv params dataset_name folds) =
     HyperparameterSet.max_depth params"
  "cv_time_ms (fold_result ext cv params dataset_name folds) = 0"
  "fold_scores (fold_result ext cv params dataset_name folds) =
     map (fold_score ext cv params folds) [0..<nat (cv_k_folds cv)]"
  "mean_cv_accuracy (fold_result ext cv params dataset_name folds) =
     fst (calculateMeanStd (map (fold_score ext cv params folds) [0..<nat (cv_k_folds cv)]))"
  "std_cv_accuracy (fold_result ext cv params dataset_name folds) =
     snd (calculateMeanStd (map (fold_score ext cv params folds) [0..<nat (cv_k_folds cv)]))"
  by (simp_all add: fold_result_def Let_def)

lemma schedule_set:
  assumes "mset schedule = mset [0..k - 1]"
  shows "set schedule = {0..<k}"
proof -
  have "set schedule = set [0..k - 1]" using assms by (rule mset_eq_setD)
  also have "\<dots> = {0..k - 1}" by (rule set_upto)
  also have "\<dots> = {0..<k}" by (simp add: set_eq_iff)
  finally show ?thesis .
qed

lemma int_add_in_range:
  "- 2147483648 \<le> a + b \<Longrightarrow> a + b \<le> 2147483647 \<Longrightarrow> int_add a b = a + b"
  by (simp add: int_add_def)

lemma int_add_wraps: "int_add 2147483647 1 = - 2147483648"
  by (simp add: int_add_def)

lemma upto_map_int: "[0..int n - 1] = map int [0..<n]"
proof (induction n)
  case 0
  then show ?case by simp
next
  case (Suc n)
  have "[0..int (Suc n) - 1] = [0..int n - 1] @ [int n]"
    using upto_rec2 [of 0 "int n"] by simp
  then show ?case using Suc by simp
qed

lemma fold_schedule_calls:
  "\<forall>f \<in> set schedule. 0 \<le> f \<Longrightarrow>
   snd (fold_schedule ext cv params folds schedule (scores, trained)) =
     trained @ map (\<lambda>f. fold_call cv params folds (nat f)) schedule"
proof (induction schedule arbitrary: scores trained)
  case Nil
  then show ?case by simp
next
  case (Cons f schedule)
  then obtain j where j: "f = int j"
    by (metis list.set_intros(1) nonneg_int_cases)
  show ?case
    using Cons.prems by (simp add: j fold_body_eq Cons.IH)
qed

lemma validate_with_schedule_trace:
  assumes "createKFolds ext (cv_data cv) (cv_k_folds cv) (cv_random_seed cv) = Inr folds"
    and "set schedule = {0..<cv_k_folds cv}"
  shows "validateSingleHyperparameter_parallel_trace ext cv params dataset_name schedule =
     Inr (fold_result ext cv params dataset_name folds,
          map (\<lambda>f. fold_call cv params folds (nat f)) schedule)"
proof -
  let ?k = "nat (cv_k_folds cv)"
  have "fst (fold_schedule ext cv params folds schedule (replicate ?k 0, [])) =
     map (\<lambda>i. if int i \<in> set schedule then fold_score ext cv params folds i
               else replicate ?k 0 ! i) [0..<?k]"
    using assms(2) by (intro fold_schedule_scores) simp_all
  also have "\<dots> = map (fold_score ext cv params folds) [0..<?k]"
  proof (rule map_cong [OF refl])
    fix i assume "i \<in> set [0..<?k]"
    then have "int i \<in> set schedule" unfolding assms(2) by auto
    then show "(if int i \<in> set schedule then fold_score ext cv params folds i
                else replicate ?k 0 ! i) = fold_score ext cv params folds i"
      by simp
  qed
  finally have scores: "fst (fold_schedule ext cv params folds schedule (replicate ?k 0, [])) =
     map (fold_score ext cv params folds) [0..<?k]" .
  have calls: "snd (fold_schedule ext cv params folds schedule (replicate ?k 0, [])) =
     [] @ map (\<lambda>f. fold_call cv params folds (nat f)) schedule"
    using assms(2) by (intro fold_schedule_calls) simp
  show ?thesis
    using assms(1) scores calls
    by (simp add: validateSingleHyperparameter_parallel_trace_def validate_with_def Let_def
        fold_result_def)
qed

lemma parallel_trace_constructed:
  assumes "CrossValidator data k seed regression = Inr cv" and "set schedule = {0..<k}"
  shows "validateSingleHyperparameter_parallel_trace ext cv params dataset_name schedule =
     Inr (fold_result ext cv params dataset_name (shuffled_folds ext data k seed),
          map (\<lambda>f. fold_call cv params (shuffled_folds ext data k seed) (nat f)) schedule)"
  using validate_with_schedule_trace [OF createKFolds_constructed [OF assms(1)],
      where schedule = schedule and params = params and dataset_name = dataset_name]
    constructed [OF assms(1)] assms(2) by simp

lemma schedule_calls_mset:
  assumes "mset schedule = mset [0..k - 1]" and "0 \<le> k"
  shows "mset (map (\<lambda>f. g (nat f)) schedule) = mset (map g [0..<nat k])"
proof -
  have "mset (map (\<lambda>f. g (nat f)) schedule) = image_mset (\<lambda>f. g (nat f)) (mset schedule)"
    by simp
  also have "\<dots> = mset (map (\<lambda>f. g (nat f)) [0..k - 1])"
    unfolding assms(1) by simp
  also have "[0..k - 1] = map int [0..<nat k]"
    using upto_map_int [of "nat k"] assms(2) by simp
  finally show ?thesis by (simp add: comp_def)
qed

lemma schedule_nth:
  assumes "mset schedule = mset [0..k - 1]" and "j < length schedule"
  shows "0 \<le> schedule ! j" "nat (schedule ! j) < nat k"
proof -
  have "schedule ! j \<in> set schedule" using assms(2) by simp
  then have "schedule ! j \<in> {0..<k}" using schedule_set [OF assms(1)] by simp
  then show "0 \<le> schedule ! j" "nat (schedule ! j) < nat k" by auto
qed

lemma schedule_length:
  assumes "mset schedule = mset [0..k - 1]" and "0 \<le> k"
  shows "length schedule = nat k"
proof -
  have "length schedule = length [0..k - 1]" using assms(1) by (rule mset_eq_length)
  then show ?thesis using assms(2) by simp
qed

subsection \<open>The example run\<close>

lemma example_folds:
  "createKFolds example_ext example_data 2 42 =
     Inr [([(1, 1), (0, 0)], [(4, 1), (3, 1), (2, 0)]), ([(4, 1), (3, 1), (2, 0)], [(1, 1), (0, 0)])]"
  by code_simp

lemma example_shuffled_folds:
  "shuffled_folds example_ext example_data 2 42 =
     [([(1, 1), (0, 0)], [(4, 1), (3, 1), (2, 0)]), ([(4, 1), (3, 1), (2, 0)], [(1, 1), (0, 0)])]"
  using createKFolds_constructed [OF example_constructed, where ext = example_ext] example_folds
  by (simp add: example_cv_def)

lemma sqrt_144: "sqrt (1 / 144) = 1 / 12"
  by (rule real_sqrt_unique) (simp_all add: power2_eq_square)

lemma upt_2: "[0..<2] = [0, Suc 0]"
  by (simp add: numeral_2_eq_2)

lemma example_scores:
  "map (fold_score example_ext example_cv (HyperparameterSet_depth 3)
          (shuffled_folds example_ext example_data 2 42)) [0..<2] = [1 / 3, 1 / 2]"
proof -
  let ?F = "[([(1, 1), (0, 0)], [(4, 1), (3, 1), (2, 0)]),
            ([(4, 1), (3, 1), (2, 0)], [(1, 1), (0, 0)])] :: ((nat \<times> nat) list \<times> (nat \<times> nat) list) list"
  have 0: "fold_score example_ext example_cv (HyperparameterSet_depth 3) ?F 0 = 1 / 3"
    by (simp add: fold_score_def fold_call_def example_ext_def example_cv_def int_add_def)
  have 1: "fold_score example_ext example_cv (HyperparameterSet_depth 3) ?F (Suc 0) = 1 / 2"
    by (simp add: fold_score_def fold_call_def example_ext_def example_cv_def int_add_def)
  show ?thesis
    unfolding example_shuffled_folds upt_2 using 0 1 by simp
qed

lemma example_run:
  "validateSingleHyperparameter example_ext example_cv (HyperparameterSet_depth 3) ''example'' =
     Inr \<lparr>dataset = ''example'', CVResult.max_depth = 3, cv_time_ms = 0,
          mean_cv_accuracy = 5 / 12, std_cv_accuracy = 1 / 12, fold_scores = [1 / 3, 1 / 2]\<rparr>"
proof -
  have k: "nat (cv_k_folds example_cv) = 2" by (simp add: example_cv_def)
  have ms: "calculateMeanStd [1 / 3, 1 / 2] = (5 / 12, 1 / 12)"
    by (simp add: calculateMeanStd_def Let_def sqrt_144 power2_eq_square field_simps)
  have "fold_result example_ext example_cv (HyperparameterSet_depth 3) ''example''
          (shuffled_folds example_ext example_data 2 42) =
        \<lparr>dataset = ''example'', CVResult.max_depth = 3, cv_time_ms = 0,
          mean_cv_accuracy = 5 / 12, std_cv_accuracy = 1 / 12, fold_scores = [1 / 3, 1 / 2]\<rparr>"
    unfolding fold_result_def k example_scores Let_def ms
    by (simp add: HyperparameterSet_depth_def)
  then show ?thesis
    unfolding validate_constructed [OF example_constructed] by simp
qed

lemma example_schedule: "mset [1, 0] = mset [0..(2::int) - 1]"
  by (simp add: upto.simps)

text \<open>
  With the largest seed an \<^verbatim>\<open>int\<close> can hold, the seed of the second fold wraps around to the
  smallest one.
\<close>

lemma example_max_constructed:
  "CrossValidator example_data 2 2147483647 False = Inr example_cv_max"
  by (simp add: CrossValidator_def example_cv_max_def example_data_def length_df_def)

lemma example_seed_wraps:
  "map_sum id (map tree_seed \<circ> snd)
     (validateSingleHyperparameter_trace example_ext example_cv_max example_params ''example'')
   = Inr [2147483647, - 2147483648]"
  unfolding trace_constructed [OF example_max_constructed]
  by (simp add: upt_2 fold_call_def example_cv_max_def int_add_def)

section \<open>validateSingleHyperparameter: claims C3, C9, C5 and C2\<close>

text \<open>
  Claim C3. For a validator built by the constructor, every hyperparameter set and every
  fold index \<open>i\<close> in \<open>0..k-1\<close>: \<^verbatim>\<open>validateSingleHyperparameter\<close> makes exactly \<open>k\<close> calls of
  the \<^verbatim>\<open>DecisionTree\<close> constructor, one per fold, in the in-order run and under every
  schedule of the parallel region, where the calls are those of the in-order run in the
  order of the schedule. The call for fold \<open>i\<close> trains on the training subset of fold \<open>i\<close>
  with the \<open>max_depth\<close>, \<open>min_obs\<close> and \<open>loss\<close> of the input set and with the seed
  \<^verbatim>\<open>random_seed_ + fold\<close>, the sum of two \<^verbatim>\<open>int\<close> values: the seed of the validator plus
  \<open>i\<close> whenever that sum is in the range of \<^verbatim>\<open>int\<close>. Score \<open>i\<close> is the accuracy of the
  predictions of the tree built by that call on the validation subset of fold \<open>i\<close>,
  against the label column \<^verbatim>\<open>col(-1)\<close> of that subset.
\<close>

theorem validateSingleHyperparameter_folds:
  assumes "CrossValidator data k seed regression = Inr cv"
    and "mset schedule = mset [0..k - 1]"
  shows "\<exists>folds result trained parallel_trained.
           createKFolds ext data k seed = Inr folds \<and> length folds = nat k
         \<and> validateSingleHyperparameter_trace ext cv params dataset_name = Inr (result, trained)
         \<and> validateSingleHyperparameter_parallel_trace ext cv params dataset_name schedule =
               Inr (result, parallel_trained)
         \<and> validateSingleHyperparameter ext cv params dataset_name = Inr result
         \<and> length trained = nat k \<and> length (fold_scores result) = nat k
         \<and> mset parallel_trained = mset trained
         \<and> (\<forall>j < nat k. parallel_trained ! j = trained ! nat (schedule ! j))
         \<and> (\<forall>i < nat k.
               trained ! i =
                 \<lparr>tree_data = fst (folds ! i),
                  tree_regression = regression,
                  tree_loss = loss params,
                  tree_mtry = - 1,
                  tree_max_height = HyperparameterSet.max_depth params,
                  tree_max_leaves = - 1,
                  tree_min_obs = min_obs params,
                  tree_max_prop = - 1,
                  tree_seed = int_add seed (int i)\<rparr>
             \<and> (- 2147483648 \<le> seed \<and> seed + int i \<le> 2147483647 \<longrightarrow>
                  tree_seed (trained ! i) = seed + int i)
             \<and> fold_scores result ! i =
                 accuracy ext (col ext (snd (folds ! i)) (- 1))
                   (predict ext (DecisionTree ext (trained ! i)) (snd (folds ! i))))"
proof -
  let ?folds = "shuffled_folds ext data k seed"
  let ?trained = "map (fold_call cv params ?folds) [0..<nat k]"
  let ?parallel = "map (\<lambda>f. fold_call cv params ?folds (nat f)) schedule"
  let ?result = "fold_result ext cv params dataset_name ?folds"
  note c = constructed [OF assms(1)]
  have k0: "0 \<le> k" using c(1) by simp
  have f: "createKFolds ext data k seed = Inr ?folds"
    using createKFolds_constructed [OF assms(1), where ext = ext] c(3) by simp
  have lf: "length ?folds = nat k"
    by (simp add: shuffled_folds_def)
  have t: "validateSingleHyperparameter_trace ext cv params dataset_name = Inr (?result, ?trained)"
    by (rule trace_constructed [OF assms(1)])
  have p: "validateSingleHyperparameter_parallel_trace ext cv params dataset_name schedule =
             Inr (?result, ?parallel)"
    by (rule parallel_trace_constructed [OF assms(1) schedule_set [OF assms(2)]])
  have v: "validateSingleHyperparameter ext cv params dataset_name = Inr ?result"
    by (rule validate_constructed [OF assms(1)])
  have m: "mset ?parallel = mset ?trained"
    by (rule schedule_calls_mset [OF assms(2) k0])
  have ls: "length schedule = nat k"
    by (rule schedule_length [OF assms(2) k0])
  have n: "\<forall>j < nat k. ?parallel ! j = ?trained ! nat (schedule ! j)"
    using schedule_nth [OF assms(2)] ls by simp
  have lr: "length (fold_scores ?result) = nat k"
    using c(3) by (simp add: fold_result_simps)
  have each: "\<forall>i < nat k.
               ?trained ! i =
                 \<lparr>tree_data = fst (?folds ! i),
                  tree_regression = regression,
                  tree_loss = loss params,
                  tree_mtry = - 1,
                  tree_max_height = HyperparameterSet.max_depth params,
                  tree_max_leaves = - 1,
                  tree_min_obs = min_obs params,
                  tree_max_prop = - 1,
                  tree_seed = int_add seed (int i)\<rparr>
             \<and> (- 2147483648 \<le> seed \<and> seed + int i \<le> 2147483647 \<longrightarrow>
                  tree_seed (?trained ! i) = seed + int i)
             \<and> fold_scores ?result ! i =
                 accuracy ext (col ext (snd (?folds ! i)) (- 1))
                   (predict ext (DecisionTree ext (?trained ! i)) (snd (?folds ! i)))"
    using c(3) by (simp add: fold_call_def fold_score_def fold_result_simps int_add_in_range)
  have lt: "length ?trained = nat k" by simp
  from f lf t p v lt lr m n each show ?thesis
    by (intro exI [of _ ?folds] exI [of _ ?result] exI [of _ ?trained] exI [of _ ?parallel]
        conjI)
qed

theorem validateSingleHyperparameter_folds_witness:
  "CrossValidator example_data 2 42 False = Inr example_cv
   \<and> mset [1, 0] = mset [0..(2::int) - 1]
   \<and> (\<exists>folds result trained parallel_trained.
           createKFolds example_ext example_data 2 42 = Inr folds \<and> length folds = 2
         \<and> validateSingleHyperparameter_trace example_ext example_cv example_params ''example'' =
               Inr (result, trained)
         \<and> validateSingleHyperparameter_parallel_trace example_ext example_cv example_params
               ''example'' [1, 0] = Inr (result, parallel_trained)
         \<and> validateSingleHyperparameter example_ext example_cv example_params ''example'' =
               Inr result
         \<and> length trained = 2 \<and> length (fold_scores result) = 2
         \<and> mset parallel_trained = mset trained
         \<and> (\<forall>j < 2. parallel_trained ! j = trained ! nat ([1, 0] ! j))
         \<and> (\<forall>i < 2.
               trained ! i =
                 \<lparr>tree_data = fst (folds ! i),
                  tree_regression = False,
                  tree_loss = ''variance'',
                  tree_mtry = - 1,
                  tree_max_height = 3,
                  tree_max_leaves = - 1,
                  tree_min_obs = 5,
                  tree_max_prop = - 1,
                  tree_seed = int_add 42 (int i)\<rparr>
             \<and> tree_seed (trained ! i) = 42 + int i
             \<and> fold_scores result ! i =
                 accuracy example_ext (col example_ext (snd (folds ! i)) (- 1))
                   (predict example_ext (DecisionTree example_ext (trained ! i))
                      (snd (folds ! i)))))"
proof -
  from validateSingleHyperparameter_folds [OF example_constructed example_schedule,
      where ext = example_ext and params = example_params and dataset_name = "''example''"]
  obtain folds result trained parallel_trained where w:
    "createKFolds example_ext example_data 2 42 = Inr folds" "length folds = nat 2"
    "validateSingleHyperparameter_trace example_ext example_cv example_params ''example'' =
       Inr (result, trained)"
    "validateSingleHyperparameter_parallel_trace example_ext example_cv example_params
       ''example'' [1, 0] = Inr (result, parallel_trained)"
    "validateSingleHyperparameter example_ext example_cv example_params ''example'' = Inr result"
    "length trained = nat 2" "length (fold_scores result) = nat 2"
    "mset parallel_trained = mset trained"
    "\<forall>j < nat 2. parallel_trained ! j = trained ! nat ([1, 0] ! j)"
    "\<forall>i < nat 2.
       trained ! i =
         \<lparr>tree_data = fst (folds ! i),
          tree_regression = False,
          tree_loss = loss example_params,
          tree_mtry = - 1,
          tree_max_height = HyperparameterSet.max_depth example_params,
          tree_max_leaves = - 1,
          tree_min_obs = min_obs example_params,
          tree_max_prop = - 1,
          tree_seed = int_add 42 (int i)\<rparr>
     \<and> (- 2147483648 \<le> (42::int) \<and> 42 + int i \<le> 2147483647 \<longrightarrow>
          tree_seed (trained ! i) = 42 + int i)
     \<and> fold_scores result ! i =
         accuracy example_ext (col example_ext (snd (folds ! i)) (- 1))
           (predict example_ext (DecisionTree example_ext (trained ! i)) (snd (folds ! i)))"
    by blast
  have "\<forall>i < 2.
          trained ! i =
                 \<lparr>tree_data = fst (folds ! i),
                  tree_regression = False,
                  tree_loss = ''variance'',
                  tree_mtry = - 1,
                  tree_max_height = 3,
                  tree_max_leaves = - 1,
                  tree_min_obs = 5,
                  tree_max_prop = - 1,
                  tree_seed = int_add 42 (int i)\<rparr>
             \<and> tree_seed (trained ! i) = 42 + int i
             \<and> fold_scores result ! i =
                 accuracy example_ext (col example_ext (snd (folds ! i)) (- 1))
                   (predict example_ext (DecisionTree example_ext (trained ! i))
                      (snd (folds ! i)))"
  proof (intro allI impI)
    fix i :: nat assume i: "i < 2"
    then have "i < nat 2" by simp
    moreover have "int_add 42 (int i) = 42 + int i"
      using i by (intro int_add_in_range) simp_all
    ultimately show "trained ! i =
                 \<lparr>tree_data = fst (folds ! i),
                  tree_regression = False,
                  tree_loss = ''variance'',
                  tree_mtry = - 1,
                  tree_max_height = 3,
                  tree_max_leaves = - 1,
                  tree_min_obs = 5,
                  tree_max_prop = - 1,
                  tree_seed = int_add 42 (int i)\<rparr>
             \<and> tree_seed (trained ! i) = 42 + int i
             \<and> fold_scores result ! i =
                 accuracy example_ext (col example_ext (snd (folds ! i)) (- 1))
                   (predict example_ext (DecisionTree example_ext (trained ! i))
                      (snd (folds ! i)))"
      using w(10) by (simp add: example_params_def)
  qed
  moreover have n2: "nat 2 = 2" by simp
  moreover note w(1-9) [unfolded n2] example_constructed example_schedule
  ultimately show ?thesis
    by (intro conjI exI [of _ folds] exI [of _ result] exI [of _ trained]
        exI [of _ parallel_trained])
qed

text \<open>
  Claim C9. Whatever the validator and the hyperparameter set, every decision tree trained
  inside \<^verbatim>\<open>validateSingleHyperparameter\<close> is built with \<open>mtry = -1\<close> (all features),
  \<open>max_leaves = -1\<close> (no limit on the leaves) and \<open>max_prop = -1\<close> (no limit on the split
  proportion). Every constructor call of a run, in order or under any schedule of the
  parallel region, carries these three values, and the tree that yields score \<open>i\<close> is the
  tree built by call \<open>i\<close> on the training subset of fold \<open>i\<close>.
\<close>

theorem trained_trees_unrestricted:
  assumes "CrossValidator data k seed regression = Inr cv"
    and "mset schedule = mset [0..k - 1]"
  shows "\<exists>folds result trained parallel_trained.
           createKFolds ext data k seed = Inr folds
         \<and> validateSingleHyperparameter_trace ext cv params dataset_name = Inr (result, trained)
         \<and> validateSingleHyperparameter_parallel_trace ext cv params dataset_name schedule =
               Inr (result, parallel_trained)
         \<and> length trained = nat k \<and> mset parallel_trained = mset trained
         \<and> (\<forall>call \<in> set trained \<union> set parallel_trained.
               tree_mtry call = - 1 \<and> tree_max_leaves call = - 1 \<and> tree_max_prop call = - 1)
         \<and> (\<forall>i < nat k.
               tree_data (trained ! i) = fst (folds ! i)
             \<and> fold_scores result ! i =
                 accuracy ext (col ext (snd (folds ! i)) (- 1))
                   (predict ext (DecisionTree ext (trained ! i)) (snd (folds ! i))))"
proof -
  let ?folds = "shuffled_folds ext data k seed"
  let ?trained = "map (fold_call cv params ?folds) [0..<nat k]"
  let ?parallel = "map (\<lambda>f. fold_call cv params ?folds (nat f)) schedule"
  let ?result = "fold_result ext cv params dataset_name ?folds"
  note c = constructed [OF assms(1)]
  have k0: "0 \<le> k" using c(1) by simp
  have f: "createKFolds ext data k seed = Inr ?folds"
    using createKFolds_constructed [OF assms(1), where ext = ext] c(3) by simp
  have t: "validateSingleHyperparameter_trace ext cv params dataset_name = Inr (?result, ?trained)"
    by (rule trace_constructed [OF assms(1)])
  have p: "validateSingleHyperparameter_parallel_trace ext cv params dataset_name schedule =
             Inr (?result, ?parallel)"
    by (rule parallel_trace_constructed [OF assms(1) schedule_set [OF assms(2)]])
  have m: "mset ?parallel = mset ?trained"
    by (rule schedule_calls_mset [OF assms(2) k0])
  have a: "\<forall>call \<in> set ?trained \<union> set ?parallel.
               tree_mtry call = - 1 \<and> tree_max_leaves call = - 1 \<and> tree_max_prop call = - 1"
    by (auto simp: fold_call_def)
  have each: "\<forall>i < nat k.
               tree_data (?trained ! i) = fst (?folds ! i)
             \<and> fold_scores ?result ! i =
                 accuracy ext (col ext (snd (?folds ! i)) (- 1))
                   (predict ext (DecisionTree ext (?trained ! i)) (snd (?folds ! i)))"
    using c(3) by (simp add: fold_call_def fold_score_def fold_result_simps)
  have lt: "length ?trained = nat k" by simp
  from f t p lt m a each show ?thesis
    by (intro exI [of _ ?folds] exI [of _ ?result] exI [of _ ?trained] exI [of _ ?parallel]
        conjI)
qed

theorem trained_trees_unrestricted_witness:
  "CrossValidator example_data 2 42 False = Inr example_cv
   \<and> mset [1, 0] = mset [0..(2::int) - 1]
   \<and> (\<exists>folds result trained parallel_trained.
           createKFolds example_ext example_data 2 42 = Inr folds
         \<and> validateSingleHyperparameter_trace example_ext example_cv example_params ''example'' =
               Inr (result, trained)
         \<and> validateSingleHyperparameter_parallel_trace example_ext example_cv example_params
               ''example'' [1, 0] = Inr (result, parallel_trained)
         \<and> length trained = 2 \<and> mset parallel_trained = mset trained
         \<and> (\<forall>call \<in> set trained \<union> set parallel_trained.
               tree_mtry call = - 1 \<and> tree_max_leaves call = - 1 \<and> tree_max_prop call = - 1)
         \<and> (\<forall>i < 2.
               tree_data (trained ! i) = fst (folds ! i)
             \<and> fold_scores result ! i =
                 accuracy example_ext (col example_ext (snd (folds ! i)) (- 1))
                   (predict example_ext (DecisionTree example_ext (trained ! i))
                      (snd (folds ! i)))))"
proof -
  have n2: "nat 2 = 2" by simp
  show ?thesis
    using trained_trees_unrestricted [OF example_constructed example_schedule,
        where ext = example_ext and params = example_params and dataset_name = "''example''",
        unfolded n2]
      example_constructed example_schedule
    by (intro conjI)
qed

text \<open>
  Claim C5, as amended. For a validator built by the constructor, the result returned by
  \<^verbatim>\<open>validateSingleHyperparameter\<close> holds the dataset name passed in, the \<open>max_depth\<close> of the
  hyperparameter set, the \<open>k\<close> accuracy scores in the order of the fold index, their mean and
  their population standard deviation; its field \<^verbatim>\<open>cv_time_ms\<close> is the constant \<open>0.0\<close>. The run
  measures no time: the benchmark driver that times the call writes the field afterwards.
\<close>

theorem validateSingleHyperparameter_result:
  assumes "CrossValidator data k seed regression = Inr cv"
  shows "\<exists>folds result.
           createKFolds ext data k seed = Inr folds
         \<and> validateSingleHyperparameter ext cv params dataset_name = Inr result
         \<and> dataset result = dataset_name
         \<and> CVResult.max_depth result = HyperparameterSet.max_depth params
         \<and> cv_time_ms result = 0
         \<and> fold_scores result =
               map (\<lambda>i. accuracy ext (col ext (snd (folds ! i)) (- 1))
                       (predict ext
                          (DecisionTree ext
                             \<lparr>tree_data = fst (folds ! i),
                              tree_regression = regression,
                              tree_loss = loss params,
                              tree_mtry = - 1,
                              tree_max_height = HyperparameterSet.max_depth params,
                              tree_max_leaves = - 1,
                              tree_min_obs = min_obs params,
                              tree_max_prop = - 1,
                              tree_seed = int_add seed (int i)\<rparr>)
                          (snd (folds ! i))))
                 [0..<nat k]
         \<and> mean_cv_accuracy result = sum_list (fold_scores result) / real (nat k)
         \<and> std_cv_accuracy result =
               sqrt ((\<Sum>x\<leftarrow>fold_scores result. (x - mean_cv_accuracy result)\<^sup>2) / real (nat k))"
proof -
  let ?folds = "shuffled_folds ext data k seed"
  let ?result = "fold_result ext cv params dataset_name ?folds"
  let ?scores = "map (fold_score ext cv params ?folds) [0..<nat k]"
  note c = constructed [OF assms]
  have v: "validateSingleHyperparameter ext cv params dataset_name = Inr ?result"
    by (rule validate_constructed [OF assms])
  have f: "createKFolds ext data k seed = Inr ?folds"
    using createKFolds_constructed [OF assms, where ext = ext] c(3) by simp
  have k: "nat (cv_k_folds cv) = nat k" using c(3) by simp
  have "?scores \<noteq> []" using c(1) by simp
  from calculateMeanStd_nonempty [OF this]
  have ms: "calculateMeanStd ?scores =
           (sum_list ?scores / real (nat k),
            sqrt ((\<Sum>x\<leftarrow>?scores. (x - sum_list ?scores / real (nat k))\<^sup>2) / real (nat k)))"
    by simp
  have sc: "fold_scores ?result = ?scores"
    by (simp add: fold_result_simps k)
  have mean: "mean_cv_accuracy ?result = sum_list (fold_scores ?result) / real (nat k)"
    unfolding sc by (simp add: fold_result_simps k ms)
  have std: "std_cv_accuracy ?result =
        sqrt ((\<Sum>x\<leftarrow>fold_scores ?result. (x - mean_cv_accuracy ?result)\<^sup>2) / real (nat k))"
    unfolding mean unfolding sc by (simp add: fold_result_simps k ms)
  have sc': "fold_scores ?result =
               map (\<lambda>i. accuracy ext (col ext (snd (?folds ! i)) (- 1))
                       (predict ext
                          (DecisionTree ext
                             \<lparr>tree_data = fst (?folds ! i),
                              tree_regression = regression,
                              tree_loss = loss params,
                              tree_mtry = - 1,
                              tree_max_height = HyperparameterSet.max_depth params,
                              tree_max_leaves = - 1,
                              tree_min_obs = min_obs params,
                              tree_max_prop = - 1,
                              tree_seed = int_add seed (int i)\<rparr>)
                          (snd (?folds ! i))))
                 [0..<nat k]"
    unfolding sc using c(3) by (simp add: fold_score_def fold_call_def)
  show ?thesis
    using f v sc' mean std
    by (intro exI [of _ ?folds] exI [of _ ?result]) (simp add: fold_result_simps)
qed

theorem validateSingleHyperparameter_result_witness:
  "CrossValidator example_data 2 42 False = Inr example_cv
   \<and> (\<exists>folds result.
           createKFolds example_ext example_data 2 42 = Inr folds
         \<and> validateSingleHyperparameter example_ext example_cv example_params ''example'' =
               Inr result
         \<and> dataset result = ''example''
         \<and> CVResult.max_depth result = 3
         \<and> cv_time_ms result = 0
         \<and> fold_scores result =
               map (\<lambda>i. accuracy example_ext (col example_ext (snd (folds ! i)) (- 1))
                       (predict example_ext
                          (DecisionTree example_ext
                             \<lparr>tree_data = fst (folds ! i),
                              tree_regression = False,
                              tree_loss = ''variance'',
                              tree_mtry = - 1,
                              tree_max_height = 3,
                              tree_max_leaves = - 1,
                              tree_min_obs = 5,
                              tree_max_prop = - 1,
                              tree_seed = int_add 42 (int i)\<rparr>)
                          (snd (folds ! i))))
                 [0..<2]
         \<and> mean_cv_accuracy result = sum_list (fold_scores result) / 2
         \<and> std_cv_accuracy result =
               sqrt ((\<Sum>x\<leftarrow>fold_scores result. (x - mean_cv_accuracy result)\<^sup>2) / 2))"
  using validateSingleHyperparameter_result [OF example_constructed, where ext = example_ext
      and params = example_params and dataset_name = "''example''"] example_constructed
  by (simp add: example_params_def)

text \<open>
  Claim C5 as stated has the result contain the elapsed time of the run. The run of the
  example trains and scores two trees, and the time field of its result is zero.
\<close>

theorem validateSingleHyperparameter_time_counterexample:
  "map_sum id cv_time_ms
     (validateSingleHyperparameter example_ext example_cv (HyperparameterSet_depth 3) ''example'')
   = Inr 0"
  by (simp add: example_run)

text \<open>
  Claim C2. The parallel region runs every fold index \<open>0..k-1\<close> once; its schedule, the
  order in which the iterations complete, depends on the number of worker threads and on
  the runtime. For a validator built by the constructor and every such schedule, the result
  of \<^verbatim>\<open>validateSingleHyperparameter\<close> equals the result of the sequential fold loop: slot \<open>i\<close>
  of \<^verbatim>\<open>fold_scores\<close> holds the accuracy of fold \<open>i\<close> whatever the completion order, and the mean
  and the standard deviation, computed from that vector in index order, are the same.
\<close>

theorem validateSingleHyperparameter_schedule_independent:
  assumes "CrossValidator data k seed regression = Inr cv"
    and "mset schedule = mset [0..k - 1]"
  shows "validateSingleHyperparameter_parallel ext cv params dataset_name schedule =
           validateSingleHyperparameter ext cv params dataset_name
       \<and> (\<exists>folds result.
             createKFolds ext data k seed = Inr folds
           \<and> validateSingleHyperparameter_parallel ext cv params dataset_name schedule = Inr result
           \<and> length (fold_scores result) = nat k
           \<and> (\<forall>i < nat k.
                 fold_scores result ! i =
                   accuracy ext (col ext (snd (folds ! i)) (- 1))
                     (predict ext
                        (DecisionTree ext
                           \<lparr>tree_data = fst (folds ! i),
                            tree_regression = regression,
                            tree_loss = loss params,
                            tree_mtry = - 1,
                            tree_max_height = HyperparameterSet.max_depth params,
                            tree_max_leaves = - 1,
                            tree_min_obs = min_obs params,
                            tree_max_prop = - 1,
                            tree_seed = int_add seed (int i)\<rparr>)
                        (snd (folds ! i))))
           \<and> mean_cv_accuracy result = fst (calculateMeanStd (fold_scores result))
           \<and> std_cv_accuracy result = snd (calculateMeanStd (fold_scores result)))"
proof -
  let ?folds = "shuffled_folds ext data k seed"
  let ?result = "fold_result ext cv params dataset_name ?folds"
  note c = constructed [OF assms(1)]
  note s = schedule_set [OF assms(2)]
  have p: "validateSingleHyperparameter_parallel ext cv params dataset_name schedule = Inr ?result"
    by (rule parallel_constructed [OF assms(1) s])
  have v: "validateSingleHyperparameter ext cv params dataset_name = Inr ?result"
    by (rule validate_constructed [OF assms(1)])
  have f: "createKFolds ext data k seed = Inr ?folds"
    using createKFolds_constructed [OF assms(1), where ext = ext] c(3) by simp
  have "\<exists>folds result.
             createKFolds ext data k seed = Inr folds
           \<and> validateSingleHyperparameter_parallel ext cv params dataset_name schedule = Inr result
           \<and> length (fold_scores result) = nat k
           \<and> (\<forall>i < nat k.
                 fold_scores result ! i =
                   accuracy ext (col ext (snd (folds ! i)) (- 1))
                     (predict ext
                        (DecisionTree ext
                           \<lparr>tree_data = fst (folds ! i),
                            tree_regression = regression,
                            tree_loss = loss params,
                            tree_mtry = - 1,
                            tree_max_height = HyperparameterSet.max_depth params,
                            tree_max_leaves = - 1,
                            tree_min_obs = min_obs params,
                            tree_max_prop = - 1,
                            tree_seed = int_add seed (int i)\<rparr>)
                        (snd (folds ! i))))
           \<and> mean_cv_accuracy result = fst (calculateMeanStd (fold_scores result))
           \<and> std_cv_accuracy result = snd (calculateMeanStd (fold_scores result))"
    using f p c(3)
    by (intro exI [of _ ?folds] exI [of _ ?result])
      (simp add: fold_call_def fold_score_def fold_result_simps)
  then show ?thesis
    using p v by simp
qed

theorem validateSingleHyperparameter_schedule_independent_witness:
  "CrossValidator example_data 2 42 False = Inr example_cv
   \<and> mset [1, 0] = mset [0..(2::int) - 1]
   \<and> validateSingleHyperparameter_parallel example_ext example_cv (HyperparameterSet_depth 3)
         ''example'' [1, 0] =
       validateSingleHyperparameter example_ext example_cv (HyperparameterSet_depth 3) ''example''
   \<and> validateSingleHyperparameter_parallel example_ext example_cv (HyperparameterSet_depth 3)
         ''example'' [1, 0] =
       Inr \<lparr>dataset = ''example'', CVResult.max_depth = 3, cv_time_ms = 0,
            mean_cv_accuracy = 5 / 12, std_cv_accuracy = 1 / 12, fold_scores = [1 / 3, 1 / 2]\<rparr>"
  using validateSingleHyperparameter_schedule_independent [OF example_constructed example_schedule,
      where ext = example_ext and params = "HyperparameterSet_depth 3"
      and dataset_name = "''example''"] example_constructed example_schedule
  by (simp add: example_run)

section \<open>gridSearchCV and validateDepths: claim C8\<close>

lemma gridSearchCV_loop_closed:
  assumes "\<And>params. validateSingleHyperparameter ext cv params dataset_name = Inr (f params)"
  shows "gridSearchCV_loop ext cv dataset_name param_grid results =
           Inr (results @ map f param_grid)"
  by (induction param_grid arbitrary: results) (simp_all add: assms)

lemma param_grid_loop_closed:
  "param_grid_loop depths param_grid = param_grid @ map HyperparameterSet_depth depths"
  by (induction depths arbitrary: param_grid) simp_all

text \<open>
  Claim C8. For a validator built by the constructor and every sequence of hyperparameter
  sets, \<^verbatim>\<open>gridSearchCV\<close> returns a list of the same length whose element \<open>i\<close> is the result of
  \<^verbatim>\<open>validateSingleHyperparameter\<close> on set \<open>i\<close> alone: the results are in input order and no
  call depends on another. \<^verbatim>\<open>validateDepths(depths)\<close> is \<^verbatim>\<open>gridSearchCV\<close> on the list that maps
  each depth to the default hyperparameter set with that \<open>max_depth\<close>.
\<close>

theorem gridSearchCV_pointwise:
  assumes "CrossValidator data k seed regression = Inr cv"
  shows "\<exists>results.
           gridSearchCV ext cv param_grid dataset_name = Inr results
         \<and> length results = length param_grid
         \<and> (\<forall>i < length param_grid.
               validateSingleHyperparameter ext cv (param_grid ! i) dataset_name = Inr (results ! i))
         \<and> validateDepths ext cv depths dataset_name =
               gridSearchCV ext cv
                 (map (\<lambda>depth. \<lparr>HyperparameterSet.max_depth = depth, min_obs = 1,
                                 loss = ''gini_impurity''\<rparr>) depths)
                 dataset_name"
proof -
  let ?f = "\<lambda>params. fold_result ext cv params dataset_name (shuffled_folds ext data k seed)"
  have v: "\<And>params. validateSingleHyperparameter ext cv params dataset_name = Inr (?f params)"
    by (rule validate_constructed [OF assms])
  have g: "gridSearchCV ext cv param_grid dataset_name = Inr (map ?f param_grid)"
    using gridSearchCV_loop_closed [of ext cv dataset_name ?f param_grid "[]", OF v]
    by (simp add: gridSearchCV_def)
  have d: "validateDepths ext cv depths dataset_name =
               gridSearchCV ext cv
                 (map (\<lambda>depth. \<lparr>HyperparameterSet.max_depth = depth, min_obs = 1,
                                 loss = ''gini_impurity''\<rparr>) depths)
                 dataset_name"
    by (simp add: validateDepths_def param_grid_loop_closed HyperparameterSet_depth_def [abs_def]
        Let_def)
  show ?thesis
    using g d v by (intro exI [of _ "map ?f param_grid"]) simp
qed

theorem gridSearchCV_pointwise_witness:
  "CrossValidator example_data 2 42 False = Inr example_cv
   \<and> (\<exists>results.
           gridSearchCV example_ext example_cv [HyperparameterSet_depth 3, example_params]
             ''example'' = Inr results
         \<and> length results = 2
         \<and> (\<forall>i < 2.
               validateSingleHyperparameter example_ext example_cv
                 ([HyperparameterSet_depth 3, example_params] ! i) ''example'' = Inr (results ! i))
         \<and> validateDepths example_ext example_cv [3, 4] ''example'' =
               gridSearchCV example_ext example_cv
                 [\<lparr>HyperparameterSet.max_depth = 3, min_obs = 1, loss = ''gini_impurity''\<rparr>,
                  \<lparr>HyperparameterSet.max_depth = 4, min_obs = 1, loss = ''gini_impurity''\<rparr>]
                 ''example'')"
  using gridSearchCV_pointwise [OF example_constructed, where ext = example_ext
      and param_grid = "[HyperparameterSet_depth 3, example_params]"
      and depths = "[3, 4]" and dataset_name = "''example''"] example_constructed
  by (simp add: numeral_2_eq_2)

section \<open>getBestParams after a grid search: claim C4\<close>

text \<open>
  Claim C4. \<^verbatim>\<open>getBestParams\<close> is to return the hyperparameter set that corresponds to the
  result with the maximum mean accuracy; its own comment reads "Find the hyperparameters
  that achieved the best cross-validation score". A grid search over the single set
  \<open>max_depth = 3\<close>, \<open>min_obs = 5\<close>, \<open>loss = variance\<close> yields one result, the best one, and
  \<^verbatim>\<open>getBestParams\<close> on it returns \<open>max_depth = 3\<close>, \<open>min_obs = 1\<close>, \<open>loss = gini_impurity\<close>:
  a set that was never validated. The depth is the right one; \<open>min_obs\<close> and \<open>loss\<close> are
  lost, because a \<^verbatim>\<open>CVResult\<close> records only the depth.
\<close>

theorem getBestParams_grid_search:
  "map_sum id getBestParams
     (gridSearchCV example_ext example_cv
        [\<lparr>HyperparameterSet.max_depth = 3, min_obs = 5, loss = ''variance''\<rparr>] ''example'')
   = Inr \<lparr>HyperparameterSet.max_depth = 3, min_obs = 1, loss = ''gini_impurity''\<rparr>"
  by (simp add: gridSearchCV_def validate_constructed [OF example_constructed]
      getBestParams_singleton fold_result_simps HyperparameterSet_depth_def)

end
